theory Spec2Isabelle
  imports Complex_Main "HOL-Library.AList"
begin

section \<open>Python strings: the library operations the scripts call\<close>

text \<open>
  A Python \<open>str\<close> is modelled as a \<open>string\<close> whose characters are the code points
  below 256. \<open>str(n)\<close> for an integer is its decimal rendering.
\<close>

definition digit_char :: "nat \<Rightarrow> char" where
  "digit_char d = ''0123456789'' ! d"

fun str_nat :: "nat \<Rightarrow> string" where
  "str_nat n = (if n < 10 then [digit_char n] else str_nat (n div 10) @ [digit_char (n mod 10)])"

declare str_nat.simps [simp del]

definition str_int :: "int \<Rightarrow> string" where
  "str_int i = (if i < 0 then CHR ''-'' # str_nat (nat (- i)) else str_nat (nat i))"

text \<open>
  \<open>str.strip()\<close> removes the characters for which \<open>str.isspace\<close> holds: among the
  code points below 256 these are 9 to 13, 28 to 32, 133 and 160.
\<close>

definition is_space :: "char \<Rightarrow> bool" where
  "is_space c = (let n = (of_char c :: nat) in
     (9 \<le> n \<and> n \<le> 13) \<or> (28 \<le> n \<and> n \<le> 32) \<or> n = 133 \<or> n = 160)"

definition strip :: "string \<Rightarrow> string" where
  "strip s = rev (dropWhile is_space (rev (dropWhile is_space s)))"

text \<open>
  \<open>str.splitlines()\<close>: the line boundaries below code point 256 are LF, CR, CR LF
  (one boundary), VT, FF, FS, GS, RS and NEL; no empty last line is produced.
\<close>

definition is_linebreak :: "char \<Rightarrow> bool" where
  "is_linebreak c = (let n = (of_char c :: nat) in
     (10 \<le> n \<and> n \<le> 13) \<or> (28 \<le> n \<and> n \<le> 30) \<or> n = 133)"

fun splitlines_from :: "string \<Rightarrow> string \<Rightarrow> string list" where
  "splitlines_from cur [] = (if cur = [] then [] else [cur])"
| "splitlines_from cur [c] = (if is_linebreak c then [cur] else [cur @ [c]])"
| "splitlines_from cur (c # d # cs) =
     (if of_char c = (13::nat) \<and> of_char d = (10::nat) then cur # splitlines_from [] cs
      else if is_linebreak c then cur # splitlines_from [] (d # cs)
      else splitlines_from (cur @ [c]) (d # cs))"

definition splitlines :: "string \<Rightarrow> string list" where
  "splitlines s = splitlines_from [] s"

text \<open>\<open>sep in s\<close> for strings: \<open>sep\<close> occurs in \<open>s\<close> as a contiguous substring.\<close>

fun str_in :: "string \<Rightarrow> string \<Rightarrow> bool" where
  "str_in sep [] = (sep = [])"
| "str_in sep (c # cs) = (take (length sep) (c # cs) = sep \<or> str_in sep cs)"

text \<open>
  \<open>s.split(sep, 1)\<close> cuts \<open>s\<close> at the first occurrence of \<open>sep\<close>. \<open>split_first\<close>
  returns the two parts, and \<open>None\<close> when \<open>sep\<close> does not occur (Python then returns
  the one-element list \<open>[s]\<close>).
\<close>

fun split_first :: "string \<Rightarrow> string \<Rightarrow> (string \<times> string) option" where
  "split_first sep [] = (if sep = [] then Some ([], []) else None)"
| "split_first sep (c # cs) =
     (if take (length sep) (c # cs) = sep then Some ([], drop (length sep) (c # cs))
      else (case split_first sep cs of
              None \<Rightarrow> None
            | Some (a, b) \<Rightarrow> Some (c # a, b)))"

text \<open>\<open>s.count(c)\<close> for a one-character \<open>c\<close>.\<close>

definition str_count :: "char \<Rightarrow> string \<Rightarrow> nat" where
  "str_count c s = length (filter (\<lambda>x. x = c) s)"


section \<open>numbered_list.py: the outline parser\<close>

record ListItem =
  id' :: string
  title :: string

text \<open>
  The body of the loop in \<open>parse_list\<close> for one stripped, non-empty line. The test
  \<open>". " in stripped\<close> and the following \<open>stripped.split(". ", 1)\<close> are one case
  distinction on \<open>split_first\<close>; lemma \<open>split_first_None_iff\<close> shows that the two agree.
\<close>

definition parse_line :: "string \<Rightarrow> ListItem" where
  "parse_line stripped =
     (case split_first ''. '' stripped of
        Some (id_part, ttl) \<Rightarrow> \<lparr>id' = strip id_part, title = strip ttl\<rparr>
      | None \<Rightarrow> \<lparr>id' = [], title = stripped\<rparr>)"

fun parse_lines :: "string list \<Rightarrow> ListItem list" where
  "parse_lines [] = []"
| "parse_lines (line # rest) =
     (let stripped = strip line in
      if stripped = [] then parse_lines rest
      else parse_line stripped # parse_lines rest)"

definition parse_list :: "string \<Rightarrow> ListItem list" where
  "parse_list output = parse_lines (splitlines output)"


section \<open>text\_canvas.py: indentation of the report\<close>

definition get_depth :: "string \<Rightarrow> nat" where
  "get_depth id_str = str_count CHR ''.'' id_str"

text \<open>
  \<open>get_dash\<close> is only ever applied to a \<open>get_depth\<close>, a count, so its argument is a
  natural number.
\<close>

definition get_dash :: "nat \<Rightarrow> string" where
  "get_dash depth =
     (if depth = 0 then replicate 40 CHR ''-''
      else if depth = 1 then replicate 20 CHR ''-''
      else if depth = 2 then replicate 10 CHR ''-''
      else replicate 5 CHR ''-'')"


section \<open>asset\_generation\_blueprint.py: data\<close>

text \<open>
  Parameter values of a request. A parameter dictionary is an association list in
  insertion order (\<open>AList.update\<close> is \<open>d[k] = v\<close>, \<open>map_of\<close> is \<open>d.get(k)\<close>,
  \<open>AList.delete\<close> removes a key).
\<close>

datatype pval = PStr string | PInt int | PReal real

type_synonym params = "(string \<times> pval) list"

text \<open>
  A value of the multipart \<open>files\<close> dictionary: an open file object, named by its
  path, or the placeholder tuple \<open>("", "")\<close>, which has no \<open>close\<close>.
\<close>

datatype attachment = FileHandle string | EmptyPart

type_synonym files = "(string \<times> attachment) list"

text \<open>
  What the scripts read of a \<open>requests\<close> response. Header names are kept in lower
  case (the library's header dictionary is case-insensitive). \<open>body_json\<close> is the
  dictionary \<open>response.json()\<close> returns with its string-valued entries (the service
  issues job ids as strings), and \<open>None\<close> when the call raises. \<open>ok\<close> is
  the library's property: the status is not in 400..599.
\<close>

record response =
  status_code :: nat
  headers :: "(string \<times> string) list"
  body_json :: "(string \<times> string) list option"
  content :: string

definition ok :: "response \<Rightarrow> bool" where
  "ok r = (\<not> (400 \<le> status_code r \<and> status_code r < 600))"

definition header_get :: "response \<Rightarrow> string \<Rightarrow> string \<Rightarrow> string" where
  "header_get r name dflt = (case map_of (headers r) name of None \<Rightarrow> dflt | Some v \<Rightarrow> v)"

text \<open>
  Every way an invocation stops without a result: \<open>exit(1)\<close> after one of the
  script's error messages, or an exception that nothing has caught yet.
\<close>

datatype reason =
    InputMissing
  | PixelLimit nat
  | RequestError
  | HttpFail nat
  | NoJobId
  | PollTimeout
  | Filtered
  | VideoFail

datatype abort = Exit reason | Raised

text \<open>
  Effects are recorded in a trace, in the order they happen; \<open>now\<close> is the clock
  \<open>time.time()\<close> reads, in seconds.
\<close>

datatype event =
    Opened string
  | Closed string
  | Posted string files params
  | Got string
  | Slept real
  | Wrote string string

record world =
  trace :: "event list"
  now :: real

definition emit :: "event \<Rightarrow> world \<Rightarrow> world" where
  "emit e w = w\<lparr>trace := trace w @ [e]\<rparr>"

definition pass :: "real \<Rightarrow> world \<Rightarrow> world" where
  "pass d w = w\<lparr>now := now w + d\<rparr>"

text \<open>
  The surroundings of one invocation. A reply is the time the request takes and the
  response, \<open>None\<close> when \<open>requests\<close> raises instead. \<open>get_replies\<close> are the replies to
  the successive status GETs; a loop that needs more replies than are listed has no
  outcome (\<open>None\<close>). \<open>image_size\<close> is what PIL reports for a file (\<open>None\<close>: it cannot
  be read as an image), \<open>stem_of\<close> is \<open>os.path.splitext(os.path.basename(p))[0]\<close>.
  A path that exists can be opened; opening any other raises.
\<close>

type_synonym reply = "real \<times> response option"

record env =
  path_exists :: "string \<Rightarrow> bool"
  image_size :: "string \<Rightarrow> (nat \<times> nat) option"
  stem_of :: "string \<Rightarrow> string"
  post_reply :: reply
  get_replies :: "reply list"

definition IMAGE_GENERATION_ENDPOINT :: string where
  "IMAGE_GENERATION_ENDPOINT = ''https://api.stability.ai/v2beta/stable-image/generate/ultra''"

definition VIDEO_GENERATION_ENDPOINT :: string where
  "VIDEO_GENERATION_ENDPOINT = ''https://api.stability.ai/v2beta/image-to-video''"

definition SKETCH_ENDPOINT :: string where
  "SKETCH_ENDPOINT = ''https://api.stability.ai/v2beta/stable-image/control/sketch''"

definition SD3_ENDPOINT :: string where
  "SD3_ENDPOINT = ''https://api.stability.ai/v2beta/stable-image/generate/sd3''"

definition UPSCALER_ENDPOINT :: string where
  "UPSCALER_ENDPOINT = ''https://api.stability.ai/v2beta/stable-image/upscale/creative''"


section \<open>Helper functions\<close>

text \<open>\<open>unique_filename\<close>, with \<open>ts = int(time.time())\<close> passed in.\<close>

definition unique_filename :: "string \<Rightarrow> string \<Rightarrow> int option \<Rightarrow> int \<Rightarrow> string" where
  "unique_filename prefix ext seed ts =
     (case seed of
        Some sd \<Rightarrow> prefix @ ''_'' @ str_int sd @ ''_'' @ str_int ts @ ''.'' @ ext
      | None \<Rightarrow> prefix @ ''_'' @ str_int ts @ ''.'' @ ext)"

text \<open>\<open>int(time.time())\<close>: the clock, truncated toward zero.\<close>

definition timestamp :: "world \<Rightarrow> int" where
  "timestamp w = (if now w < 0 then \<lceil>now w\<rceil> else \<lfloor>now w\<rfloor>)"

text \<open>
  \<open>if image_file and os.path.exists(image_file): files[name] = open(image_file, 'rb')\<close>
  for the value popped from the parameters. Only a string can be a path.
\<close>

definition attach :: "env \<Rightarrow> string \<Rightarrow> pval option \<Rightarrow> files \<times> world \<Rightarrow> files \<times> world" where
  "attach ev name v fw =
     (case v of
        Some (PStr p) \<Rightarrow>
          if p \<noteq> [] \<and> path_exists ev p
          then (AList.update name (FileHandle p) (fst fw), emit (Opened p) (snd fw))
          else fw
      | _ \<Rightarrow> fw)"

text \<open>The loop \<open>for file in files.values(): if hasattr(file, "close"): file.close()\<close>.\<close>

fun close_all :: "files \<Rightarrow> world \<Rightarrow> world" where
  "close_all [] w = w"
| "close_all ((name, FileHandle p) # fs) w = close_all fs (emit (Closed p) w)"
| "close_all ((name, EmptyPart) # fs) w = close_all fs w"

text \<open>
  The common first half of \<open>send_generation_request\<close> and
  \<open>send_async_generation_request\<close>: pop and open the attachments, add the
  placeholder, POST. When the POST raises, the exception leaves the function at once.
\<close>

definition submit :: "env \<Rightarrow> string \<Rightarrow> params \<Rightarrow> files \<Rightarrow> world \<Rightarrow> (abort + response) \<times> world" where
  "submit ev host ps fs w =
     (let image_file = map_of ps ''image'';
          ps1 = AList.delete ''image'' ps;
          mask_file = map_of ps1 ''mask'';
          ps2 = AList.delete ''mask'' ps1;
          fw1 = attach ev ''image'' image_file (fs, w);
          fw2 = attach ev ''mask'' mask_file fw1;
          fs3 = (if fst fw2 = [] then [(''none'', EmptyPart)] else fst fw2);
          w3 = pass (fst (post_reply ev)) (emit (Posted host fs3 ps2) (snd fw2))
      in case snd (post_reply ev) of
           None \<Rightarrow> (Inl Raised, w3)
         | Some r \<Rightarrow>
             (let w4 = close_all fs3 w3
              in if \<not> ok r then (Inl (Exit (HttpFail (status_code r))), w4)
                 else (Inr r, w4)))"

definition send_generation_request ::
  "env \<Rightarrow> string \<Rightarrow> params \<Rightarrow> files \<Rightarrow> world \<Rightarrow> (abort + response) \<times> world" where
  "send_generation_request ev host ps fs w = submit ev host ps fs w"

text \<open>
  The \<open>while True\<close> loop of \<open>send_async_generation_request\<close>, one iteration per
  listed reply; \<open>start\<close> is the clock value read before the loop.
\<close>

fun poll_loop ::
  "string \<Rightarrow> real \<Rightarrow> real \<Rightarrow> real \<Rightarrow> reply list \<Rightarrow> world \<Rightarrow> (abort + response) option \<times> world" where
  "poll_loop poll_url poll_interval timeout start [] w = (None, w)"
| "poll_loop poll_url poll_interval timeout start ((lat, rep) # rs) w =
     (let w1 = pass lat (emit (Got poll_url) w)
      in case rep of
           None \<Rightarrow> (Some (Inl Raised), w1)
         | Some r \<Rightarrow>
             if \<not> ok r then (Some (Inl (Exit (HttpFail (status_code r)))), w1)
             else if status_code r \<noteq> 202 then (Some (Inr r), w1)
             else if now w1 - start > timeout then (Some (Inl (Exit PollTimeout)), w1)
             else if poll_interval < 0 then (Some (Inl Raised), w1)
             else poll_loop poll_url poll_interval timeout start rs
                    (pass poll_interval (emit (Slept poll_interval) w1)))"

definition results_url :: "string \<Rightarrow> string" where
  "results_url generation_id = ''https://api.stability.ai/v2beta/results/'' @ generation_id"

definition send_async_generation_request ::
  "env \<Rightarrow> string \<Rightarrow> params \<Rightarrow> files \<Rightarrow> real \<Rightarrow> real \<Rightarrow> world
     \<Rightarrow> (abort + response) option \<times> world" where
  "send_async_generation_request ev host ps fs poll_interval timeout w =
     (case submit ev host ps fs w of
        (Inl a, w1) \<Rightarrow> (Some (Inl a), w1)
      | (Inr r, w1) \<Rightarrow>
          (case body_json r of
             None \<Rightarrow> (Some (Inl Raised), w1)
           | Some response_dict \<Rightarrow>
               (case map_of response_dict ''id'' of
                  None \<Rightarrow> (Some (Inl (Exit NoJobId)), w1)
                | Some generation_id \<Rightarrow>
                    poll_loop (results_url generation_id) poll_interval timeout (now w1)
                      (get_replies ev) w1)))"


section \<open>Generation functions\<close>

text \<open>
  Each function takes its arguments in the source's order (the API key and the
  endpoint, which \<open>interactive_main\<close> never overrides, are left out) and returns the
  saved file's name or the way it stopped. \<open>try: ... except Exception\<close> turns a raised
  exception into \<open>exit(1)\<close>; the \<open>SystemExit\<close> of an inner \<open>exit(1)\<close> is not an
  \<open>Exception\<close> and passes through.
\<close>

definition CONTENT_FILTERED :: string where
  "CONTENT_FILTERED = ''CONTENT_FILTERED''"

definition finish_reason :: "response \<Rightarrow> string" where
  "finish_reason r = header_get r ''finish-reason'' []"

definition image_params :: "string \<Rightarrow> string \<Rightarrow> string \<Rightarrow> int \<Rightarrow> string \<Rightarrow> params" where
  "image_params prompt negative_prompt aspect_ratio seed output_format =
     [(''prompt'', PStr prompt),
      (''negative_prompt'', PStr negative_prompt),
      (''aspect_ratio'', PStr aspect_ratio),
      (''seed'', PInt seed),
      (''output_format'', PStr output_format)]"

definition generate_image ::
  "env \<Rightarrow> string \<Rightarrow> string \<Rightarrow> string \<Rightarrow> int \<Rightarrow> string \<Rightarrow> world \<Rightarrow> (abort + string) \<times> world" where
  "generate_image ev prompt negative_prompt aspect_ratio seed output_format w =
     (case send_generation_request ev IMAGE_GENERATION_ENDPOINT
             (image_params prompt negative_prompt aspect_ratio seed output_format) [] w of
        (Inl Raised, w1) \<Rightarrow> (Inl (Exit RequestError), w1)
      | (Inl (Exit x), w1) \<Rightarrow> (Inl (Exit x), w1)
      | (Inr r, w1) \<Rightarrow>
          if finish_reason r = CONTENT_FILTERED then (Inl (Exit Filtered), w1)
          else (let filename = unique_filename ''generated'' output_format (Some seed) (timestamp w1)
                in (Inr filename, emit (Wrote filename (content r)) w1)))"

definition THREE_D_GENERATION_ENDPOINT :: string where
  "THREE_D_GENERATION_ENDPOINT = ''https://api.stability.ai/v2beta/3d/stable-fast-3d''"

definition three_d_params :: "string \<Rightarrow> real \<Rightarrow> string \<Rightarrow> int \<Rightarrow> string \<Rightarrow> params" where
  "three_d_params texture_resolution foreground_ratio remesh vertex_count image_path =
     [(''texture_resolution'', PStr texture_resolution),
      (''foreground_ratio'', PReal foreground_ratio),
      (''remesh'', PStr remesh),
      (''vertex_count'', PInt vertex_count),
      (''image'', PStr image_path)]"

text \<open>\<open>generate_3d\<close> with \<open>additional_params\<close> left at its default \<open>None\<close>.\<close>

definition generate_3d ::
  "env \<Rightarrow> string \<Rightarrow> string \<Rightarrow> real \<Rightarrow> string \<Rightarrow> int \<Rightarrow> world \<Rightarrow> (abort + string) \<times> world" where
  "generate_3d ev image_path texture_resolution foreground_ratio remesh vertex_count w =
     (case send_generation_request ev THREE_D_GENERATION_ENDPOINT
             (three_d_params texture_resolution foreground_ratio remesh vertex_count image_path)
             [] w of
        (Inl Raised, w1) \<Rightarrow> (Inl (Exit RequestError), w1)
      | (Inl (Exit x), w1) \<Rightarrow> (Inl (Exit x), w1)
      | (Inr r, w1) \<Rightarrow>
          (let filename = unique_filename ''model'' ''glb'' None (timestamp w1)
           in (Inr filename, emit (Wrote filename (content r)) w1)))"

definition sketch_params :: "real \<Rightarrow> int \<Rightarrow> string \<Rightarrow> string \<Rightarrow> string \<Rightarrow> params" where
  "sketch_params control_strength seed output_format prompt negative_prompt =
     [(''control_strength'', PReal control_strength),
      (''seed'', PInt seed),
      (''output_format'', PStr output_format),
      (''prompt'', PStr prompt),
      (''negative_prompt'', PStr negative_prompt)]"

definition sketch_to_image ::
  "env \<Rightarrow> string \<Rightarrow> string \<Rightarrow> string \<Rightarrow> real \<Rightarrow> int \<Rightarrow> string \<Rightarrow> world
     \<Rightarrow> (abort + string) \<times> world" where
  "sketch_to_image ev input_image prompt negative_prompt control_strength seed output_format w =
     (if \<not> path_exists ev input_image then (Inl (Exit InputMissing), w)
      else
        (let ps = sketch_params control_strength seed output_format prompt negative_prompt;
             w1 = emit (Opened input_image) w;
             w2 = pass (fst (post_reply ev))
                    (emit (Posted SKETCH_ENDPOINT [(''image'', FileHandle input_image)] ps) w1);
             w3 = emit (Closed input_image) w2
         in case snd (post_reply ev) of
              None \<Rightarrow> (Inl (Exit RequestError), w3)
            | Some r \<Rightarrow>
                if \<not> ok r then (Inl (Exit (HttpFail (status_code r))), w3)
                else if finish_reason r = CONTENT_FILTERED then (Inl (Exit Filtered), w3)
                else (let edited = ''edited_'' @ stem_of ev input_image @ ''_'' @ str_int seed
                                     @ ''.'' @ output_format
                      in (Inr edited, emit (Wrote edited (content r)) w3))))"

definition sd3_params ::
  "string \<Rightarrow> string \<Rightarrow> string \<Rightarrow> int \<Rightarrow> string \<Rightarrow> string \<Rightarrow> params" where
  "sd3_params prompt negative_prompt aspect_ratio seed output_format model =
     [(''prompt'', PStr prompt),
      (''negative_prompt'', PStr (if model = ''sd3'' then negative_prompt else [])),
      (''aspect_ratio'', PStr aspect_ratio),
      (''seed'', PInt seed),
      (''output_format'', PStr output_format),
      (''model'', PStr model),
      (''mode'', PStr ''text-to-image'')]"

definition generate_sd3 ::
  "env \<Rightarrow> string \<Rightarrow> string \<Rightarrow> string \<Rightarrow> int \<Rightarrow> string \<Rightarrow> string \<Rightarrow> world
     \<Rightarrow> (abort + string) \<times> world" where
  "generate_sd3 ev prompt negative_prompt aspect_ratio seed output_format model w =
     (case send_generation_request ev SD3_ENDPOINT
             (sd3_params prompt negative_prompt aspect_ratio seed output_format model) [] w of
        (Inl Raised, w1) \<Rightarrow> (Inl (Exit RequestError), w1)
      | (Inl (Exit x), w1) \<Rightarrow> (Inl (Exit x), w1)
      | (Inr r, w1) \<Rightarrow>
          if finish_reason r = CONTENT_FILTERED then (Inl (Exit Filtered), w1)
          else (let filename = unique_filename ''sd3_generated'' output_format (Some seed)
                                 (timestamp w1)
                in (Inr filename, emit (Wrote filename (content r)) w1)))"

definition upscale_params :: "string \<Rightarrow> string \<Rightarrow> int \<Rightarrow> real \<Rightarrow> string \<Rightarrow> params" where
  "upscale_params prompt negative_prompt seed creativity output_format =
     [(''prompt'', PStr prompt),
      (''negative_prompt'', PStr negative_prompt),
      (''seed'', PInt seed),
      (''creativity'', PReal creativity),
      (''output_format'', PStr output_format)]"

text \<open>
  \<open>upscale_image\<close> hands its own open file to the shared poller (defaults: poll
  interval 10, timeout 500); the \<open>with\<close> block closes the file again on every way out.
\<close>

definition upscale_image ::
  "env \<Rightarrow> string \<Rightarrow> string \<Rightarrow> string \<Rightarrow> int \<Rightarrow> real \<Rightarrow> string \<Rightarrow> world
     \<Rightarrow> (abort + string) option \<times> world" where
  "upscale_image ev input_image prompt negative_prompt seed creativity output_format w =
     (if \<not> path_exists ev input_image then (Some (Inl (Exit InputMissing)), w)
      else
        (case image_size ev input_image of
           None \<Rightarrow> (Some (Inl Raised), w)
         | Some (width, height) \<Rightarrow>
             (let total_pixels = width * height
              in if total_pixels > 1048576 then (Some (Inl (Exit (PixelLimit total_pixels))), w)
                 else
                   (case send_async_generation_request ev UPSCALER_ENDPOINT
                           (upscale_params prompt negative_prompt seed creativity output_format)
                           [(''image'', FileHandle input_image)] 10 500
                           (emit (Opened input_image) w) of
                      (None, w2) \<Rightarrow> (None, w2)
                    | (Some (Inl Raised), w2) \<Rightarrow>
                        (Some (Inl (Exit RequestError)), emit (Closed input_image) w2)
                    | (Some (Inl (Exit x)), w2) \<Rightarrow>
                        (Some (Inl (Exit x)), emit (Closed input_image) w2)
                    | (Some (Inr r), w2) \<Rightarrow>
                        (let w3 = emit (Closed input_image) w2
                         in if \<not> ok r then (Some (Inl (Exit (HttpFail (status_code r)))), w3)
                            else if finish_reason r = CONTENT_FILTERED
                            then (Some (Inl (Exit Filtered)), w3)
                            else (let upscaled = ''upscaled_'' @ stem_of ev input_image @ ''_''
                                                   @ str_int seed @ ''.'' @ output_format
                                  in (Some (Inr upscaled),
                                      emit (Wrote upscaled (content r)) w3)))))))"

text \<open>The \<open>while True\<close> loop of \<open>generate_video\<close>: no clock is read, the sleep is 10.\<close>

fun video_poll ::
  "string \<Rightarrow> int \<Rightarrow> reply list \<Rightarrow> world \<Rightarrow> (abort + string) option \<times> world" where
  "video_poll result_url seed [] w = (None, w)"
| "video_poll result_url seed ((lat, rep) # rs) w =
     (let w1 = pass lat (emit (Got result_url) w)
      in case rep of
           None \<Rightarrow> (Some (Inl Raised), w1)
         | Some r \<Rightarrow>
             if status_code r = 202
             then video_poll result_url seed rs (pass 10 (emit (Slept 10) w1))
             else if status_code r = 200
             then (let filename = unique_filename ''video'' ''mp4'' (Some seed) (timestamp w1)
                   in (Some (Inr filename), emit (Wrote filename (content r)) w1))
             else (Some (Inl (Exit VideoFail)), w1))"

definition video_result_url :: "string \<Rightarrow> string" where
  "video_result_url generation_id =
     ''https://api.stability.ai/v2beta/image-to-video/result/'' @ generation_id"

definition video_params :: "int \<Rightarrow> real \<Rightarrow> int \<Rightarrow> params" where
  "video_params seed cfg_scale motion_bucket_id =
     [(''seed'', PInt seed),
      (''cfg_scale'', PReal cfg_scale),
      (''motion_bucket_id'', PInt motion_bucket_id)]"

definition generate_video ::
  "env \<Rightarrow> string \<Rightarrow> int \<Rightarrow> real \<Rightarrow> int \<Rightarrow> world \<Rightarrow> (abort + string) option \<times> world" where
  "generate_video ev image_path seed cfg_scale motion_bucket_id w =
     (if \<not> path_exists ev image_path then (Some (Inl (Exit RequestError)), w)
      else
        (let w1 = emit (Opened image_path) w;
             w2 = pass (fst (post_reply ev))
                    (emit (Posted VIDEO_GENERATION_ENDPOINT [(''image'', FileHandle image_path)]
                            (video_params seed cfg_scale motion_bucket_id)) w1);
             w3 = emit (Closed image_path) w2
         in case snd (post_reply ev) of
              None \<Rightarrow> (Some (Inl (Exit RequestError)), w3)
            | Some r \<Rightarrow>
                if \<not> ok r then (Some (Inl (Exit (HttpFail (status_code r)))), w3)
                else
                  (case body_json r of
                     None \<Rightarrow> (Some (Inl Raised), w3)
                   | Some response_dict \<Rightarrow>
                       (case map_of response_dict ''id'' of
                          None \<Rightarrow> (Some (Inl (Exit NoJobId)), w3)
                        | Some generation_id \<Rightarrow>
                            if generation_id = [] then (Some (Inl (Exit NoJobId)), w3)
                            else video_poll (video_result_url generation_id) seed
                                   (get_replies ev) w3))))"

text \<open>
  The model choice of the \<open>sd3\<close> branch of \<open>interactive_main\<close>, from the line the
  user types: \<open>input(...).strip() or "1"\<close>, then \<open>model_map.get(choice, "sd3.5-large")\<close>.
\<close>

definition model_map :: "(string \<times> string) list" where
  "model_map = [(''1'', ''sd3.5-large''), (''2'', ''sd3-large-turbo''), (''3'', ''sd3-medium'')]"

definition menu_model :: "string \<Rightarrow> string" where
  "menu_model typed =
     (let model_choice = (if strip typed = [] then ''1'' else strip typed)
      in case map_of model_map model_choice of
           None \<Rightarrow> ''sd3.5-large''
         | Some m \<Rightarrow> m)"

text \<open>Observations on a trace.\<close>

fun files_written :: "event list \<Rightarrow> (string \<times> string) list" where
  "files_written [] = []"
| "files_written (Wrote name data # es) = (name, data) # files_written es"
| "files_written (e # es) = files_written es"

fun polls_issued :: "event list \<Rightarrow> nat" where
  "polls_issued [] = 0"
| "polls_issued (Got u # es) = Suc (polls_issued es)"
| "polls_issued (e # es) = polls_issued es"

fun network_calls :: "event list \<Rightarrow> nat" where
  "network_calls [] = 0"
| "network_calls (Got u # es) = Suc (network_calls es)"
| "network_calls (Posted u fs ps # es) = Suc (network_calls es)"
| "network_calls (e # es) = network_calls es"

fun posted_params :: "event list \<Rightarrow> params list" where
  "posted_params [] = []"
| "posted_params (Posted u fs ps # es) = ps # posted_params es"
| "posted_params (e # es) = posted_params es"

text \<open>The handles a trace leaves open: opened and not closed afterwards.\<close>

fun open_handles :: "event list \<Rightarrow> string list \<Rightarrow> string list" where
  "open_handles [] hs = hs"
| "open_handles (Opened p # es) hs = open_handles es (hs @ [p])"
| "open_handles (Closed p # es) hs = open_handles es (removeAll p hs)"
| "open_handles (e # es) hs = open_handles es hs"


section \<open>Describing poll scripts and outcomes\<close>

text \<open>
  \<open>keeps_polling poll_interval timeout elapsed rs\<close>: every reply of \<open>rs\<close> is a 202
  that arrives while the time elapsed since the start does not exceed the timeout, when
  \<open>elapsed\<close> has passed before the first request. \<open>waited\<close> is the world after these
  polls and the sleeps that follow them.
\<close>

fun keeps_polling :: "real \<Rightarrow> real \<Rightarrow> real \<Rightarrow> reply list \<Rightarrow> bool" where
  "keeps_polling poll_interval timeout elapsed [] = True"
| "keeps_polling poll_interval timeout elapsed ((lat, rep) # rs) =
     (case rep of
        None \<Rightarrow> False
      | Some r \<Rightarrow> status_code r = 202 \<and> elapsed + lat \<le> timeout \<and> 0 \<le> poll_interval
                 \<and> keeps_polling poll_interval timeout (elapsed + lat + poll_interval) rs)"

text \<open>
  \<open>pending_reply\<close>: a 202 response to a request that took no negative time.
  \<open>arrival poll_interval rs\<close>: the time after the start at which the last reply of
  \<open>rs\<close> arrives, when these are the replies to the first polls: the durations of the
  requests and the sleeps between them.
\<close>

definition pending_reply :: "reply \<Rightarrow> bool" where
  "pending_reply rp =
     (0 \<le> fst rp \<and> (case snd rp of None \<Rightarrow> False | Some r \<Rightarrow> status_code r = 202))"

definition arrival :: "real \<Rightarrow> reply list \<Rightarrow> real" where
  "arrival poll_interval rs = sum_list (map fst rs) + real (length rs - 1) * poll_interval"

fun waited :: "string \<Rightarrow> real \<Rightarrow> reply list \<Rightarrow> world \<Rightarrow> world" where
  "waited url poll_interval [] w = w"
| "waited url poll_interval ((lat, rep) # rs) w =
     waited url poll_interval rs
       (pass poll_interval (emit (Slept poll_interval) (pass lat (emit (Got url) w))))"

text \<open>
  What a poll loop comes to, for comparing the two loops: the payload it delivers
  (the shared poller returns the response, the video loop writes its content to the
  output file), a fatal exit, or an uncaught exception.
\<close>

datatype verdict = Delivered string | Fatal | Crashed

definition shared_verdict :: "(abort + response) option \<times> world \<Rightarrow> verdict option" where
  "shared_verdict out =
     (case fst out of
        None \<Rightarrow> None
      | Some (Inr r) \<Rightarrow> Some (Delivered (content r))
      | Some (Inl (Exit x)) \<Rightarrow> Some Fatal
      | Some (Inl Raised) \<Rightarrow> Some Crashed)"

definition video_verdict :: "(abort + string) option \<times> world \<Rightarrow> verdict option" where
  "video_verdict out =
     (case fst out of
        None \<Rightarrow> None
      | Some (Inr filename) \<Rightarrow>
          (case rev (files_written (trace (snd out))) of
             [] \<Rightarrow> Some Crashed
           | (name, data) # earlier \<Rightarrow> Some (Delivered data))
      | Some (Inl (Exit x)) \<Rightarrow> Some Fatal
      | Some (Inl Raised) \<Rightarrow> Some Crashed)"

definition common_status :: "reply \<Rightarrow> bool" where
  "common_status rp =
     (case snd rp of
        None \<Rightarrow> True
      | Some r \<Rightarrow> status_code r = 200 \<or> status_code r = 202
                 \<or> (400 \<le> status_code r \<and> status_code r < 600))"

text \<open>Sample surroundings for the concrete runs below.\<close>

definition fresh :: world where
  "fresh = \<lparr>trace = [], now = 1700000000\<rparr>"

definition plain :: "nat \<Rightarrow> response" where
  "plain code = \<lparr>status_code = code, headers = [], body_json = None, content = ''payload''\<rparr>"

definition accepted :: "string \<Rightarrow> response" where
  "accepted job = \<lparr>status_code = 200, headers = [], body_json = Some [(''id'', job)],
                    content = []\<rparr>"

definition filtered :: "nat \<Rightarrow> response" where
  "filtered code = \<lparr>status_code = code, headers = [(''finish-reason'', ''CONTENT_FILTERED'')],
                      body_json = Some [(''id'', ''job-1'')], content = ''payload''\<rparr>"

definition site :: "reply \<Rightarrow> reply list \<Rightarrow> env" where
  "site posted polled =
     \<lparr>path_exists = (\<lambda>p. p = ''in/cat.png''),
      image_size = (\<lambda>p. if p = ''in/cat.png'' then Some (1024, 1024) else None),
      stem_of = (\<lambda>p. ''cat''),
      post_reply = posted,
      get_replies = polled\<rparr>"

section \<open>Verified properties\<close>

subsection \<open>The outline parser and the report\<close>

lemma split_first_None_iff: "split_first sep s = None \<longleftrightarrow> \<not> str_in sep s"
  by (induction s) (auto split: option.splits)

lemma split_first_dot_space:
  "\<not> str_in ''. '' a \<Longrightarrow> split_first ''. '' (a @ ''. '' @ b) = Some (a, b)"
proof (induction a)
  case Nil
  show ?case by simp
next
  case (Cons c a)
  from Cons.prems have no_head: "take 2 (c # a) \<noteq> ''. ''" and no_tail: "\<not> str_in ''. '' a"
    by simp_all
  have "take 2 (c # a @ ''. '' @ b) \<noteq> ''. ''"
  proof (cases a)
    case Nil
    then show ?thesis by simp
  next
    case (Cons d a')
    with no_head show ?thesis by simp
  qed
  with Cons.IH [OF no_tail] show ?case by simp
qed

lemma parse_lines_eq:
  "parse_lines ls = map parse_line (filter (\<lambda>l. l \<noteq> []) (map strip ls))"
  by (induction ls) (simp_all add: Let_def)

text \<open>
  Claim C8. \<open>parse_list\<close> turns the line \<open>"1.2. Define requirements"\<close> into the
  item with id \<open>"1.2"\<close> and title \<open>"Define requirements"\<close>, and the line
  \<open>"Miscellaneous notes"\<close> into the item with empty id and the line as title. In
  general it parses every line that is non-empty after stripping; a line \<open>a + ". " + b\<close>
  where \<open>". "\<close> does not occur in \<open>a\<close> (so the cut is at the first occurrence) gives
  id \<open>a.strip()\<close> and title \<open>b.strip()\<close>, and a line without \<open>". "\<close> gives the empty id
  and the whole line as title.
\<close>

theorem parse_list_first_separator:
  "parse_list ''1.2. Define requirements'' = [\<lparr>id' = ''1.2'', title = ''Define requirements''\<rparr>]
   \<and> parse_list ''Miscellaneous notes'' = [\<lparr>id' = [], title = ''Miscellaneous notes''\<rparr>]
   \<and> parse_list output = map parse_line (filter (\<lambda>l. l \<noteq> []) (map strip (splitlines output)))
   \<and> (\<not> str_in ''. '' a \<longrightarrow> parse_line (a @ ''. '' @ b) = \<lparr>id' = strip a, title = strip b\<rparr>)
   \<and> (\<not> str_in ''. '' s \<longrightarrow> parse_line s = \<lparr>id' = [], title = s\<rparr>)"
proof -
  have ex1: "parse_list ''1.2. Define requirements''
               = [\<lparr>id' = ''1.2'', title = ''Define requirements''\<rparr>]"
    by (simp add: parse_list_def splitlines_def parse_line_def strip_def is_space_def
          is_linebreak_def)
  have ex2: "parse_list ''Miscellaneous notes'' = [\<lparr>id' = [], title = ''Miscellaneous notes''\<rparr>]"
    by (simp add: parse_list_def splitlines_def parse_line_def strip_def is_space_def
          is_linebreak_def)
  have gen: "parse_list output
               = map parse_line (filter (\<lambda>l. l \<noteq> []) (map strip (splitlines output)))"
    by (simp add: parse_list_def parse_lines_eq)
  have with_sep: "\<not> str_in ''. '' a \<longrightarrow>
      parse_line (a @ ''. '' @ b) = \<lparr>id' = strip a, title = strip b\<rparr>"
  proof
    assume "\<not> str_in ''. '' a"
    then have "split_first ''. '' (a @ ''. '' @ b) = Some (a, b)"
      by (rule split_first_dot_space)
    then show "parse_line (a @ ''. '' @ b) = \<lparr>id' = strip a, title = strip b\<rparr>"
      by (simp add: parse_line_def)
  qed
  have without: "\<not> str_in ''. '' s \<longrightarrow> parse_line s = \<lparr>id' = [], title = s\<rparr>"
  proof
    assume "\<not> str_in ''. '' s"
    then have "split_first ''. '' s = None"
      by (simp add: split_first_None_iff)
    then show "parse_line s = \<lparr>id' = [], title = s\<rparr>"
      by (simp add: parse_line_def)
  qed
  from ex1 ex2 gen with_sep without show ?thesis by blast
qed

text \<open>
  The two general cases of C8 at the lines of the claim.
\<close>

theorem parse_list_first_separator_witness:
  "\<not> str_in ''. '' ''1.2''
   \<and> parse_line (''1.2'' @ ''. '' @ ''Define requirements'')
       = \<lparr>id' = ''1.2'', title = ''Define requirements''\<rparr>
   \<and> \<not> str_in ''. '' ''Miscellaneous notes''
   \<and> parse_line ''Miscellaneous notes'' = \<lparr>id' = [], title = ''Miscellaneous notes''\<rparr>"
  using parse_list_first_separator
          [where a = "''1.2''" and b = "''Define requirements''" and s = "''Miscellaneous notes''"]
  by (simp add: strip_def is_space_def)

text \<open>
  Claim C7. At timestamp 1700000000, \<open>unique_filename("model", "glb")\<close> is
  \<open>model_1700000000.glb\<close> and \<open>unique_filename("generated", "jpeg", 7)\<close> is
  \<open>generated_7_1700000000.jpeg\<close>; in general the name is prefix, underscore,
  timestamp, dot, extension without a seed, and prefix, underscore, seed, underscore,
  timestamp, dot, extension with one.
\<close>

theorem unique_filename_format:
  "unique_filename ''model'' ''glb'' None 1700000000 = ''model_1700000000.glb''
   \<and> unique_filename ''generated'' ''jpeg'' (Some 7) 1700000000 = ''generated_7_1700000000.jpeg''
   \<and> unique_filename prefix ext None ts = prefix @ ''_'' @ str_int ts @ ''.'' @ ext
   \<and> unique_filename prefix ext (Some seed) ts
       = prefix @ ''_'' @ str_int seed @ ''_'' @ str_int ts @ ''.'' @ ext"
  by (simp add: unique_filename_def str_int_def str_nat.simps digit_char_def)

text \<open>
  Claim C9. The ids \<open>"1"\<close>, \<open>"1.2"\<close>, \<open>"1.2.3"\<close> and \<open>"1.2.3.4"\<close> are rendered with
  40, 20, 10 and 5 dashes; for every id the depth is its number of dots and the dash
  line has 40, 20, 10 or 5 dashes for depth 0, 1, 2 or at least 3.
\<close>

theorem dash_count_step_function:
  "get_dash (get_depth ''1'') = replicate 40 CHR ''-''
   \<and> get_dash (get_depth ''1.2'') = replicate 20 CHR ''-''
   \<and> get_dash (get_depth ''1.2.3'') = replicate 10 CHR ''-''
   \<and> get_dash (get_depth ''1.2.3.4'') = replicate 5 CHR ''-''
   \<and> get_depth item_id = length (filter (\<lambda>c. c = CHR ''.'') item_id)
   \<and> get_dash (get_depth item_id) =
       replicate (if get_depth item_id = 0 then 40 else if get_depth item_id = 1 then 20
                  else if get_depth item_id = 2 then 10 else 5) CHR ''-''"
  by (simp add: get_dash_def get_depth_def str_count_def)

lemma menu_model_cases:
  "menu_model typed = ''sd3.5-large'' \<or> menu_model typed = ''sd3-large-turbo''
   \<or> menu_model typed = ''sd3-medium''"
  by (simp add: menu_model_def model_map_def Let_def)

lemma menu_model_not_sd3: "menu_model typed \<noteq> ''sd3''"
  using menu_model_cases [of typed] by auto

lemma posted_params_append:
  "posted_params (es @ fs) = posted_params es @ posted_params fs"
  by (induction es rule: posted_params.induct) simp_all

lemma posted_params_close_all:
  "posted_params (trace (close_all fs w)) = posted_params (trace w)"
  by (induction fs w rule: close_all.induct) (simp_all add: emit_def posted_params_append)

lemma sd3_params_no_attachment:
  "map_of (sd3_params p n a s f m) ''image'' = None"
  "map_of (sd3_params p n a s f m) ''mask'' = None"
  by (simp_all add: sd3_params_def)

text \<open>
  Claim C10. Whatever the user types at the model menu and whatever negative prompt
  was entered, the parameters \<open>generate_sd3\<close> builds carry an empty
  \<open>negative_prompt\<close>, and these are the parameters of the one POST it issues.
\<close>

theorem sd3_menu_negative_prompt_empty:
  "map_of (sd3_params prompt negative_prompt aspect_ratio seed output_format (menu_model typed))
      ''negative_prompt'' = Some (PStr [])
   \<and> posted_params (trace (snd (generate_sd3 ev prompt negative_prompt aspect_ratio seed
                                  output_format (menu_model typed) w)))
       = posted_params (trace w)
         @ [sd3_params prompt [] aspect_ratio seed output_format (menu_model typed)]"
proof -
  let ?m = "menu_model typed"
  have eq: "sd3_params prompt negative_prompt aspect_ratio seed output_format ?m
          = sd3_params prompt [] aspect_ratio seed output_format ?m"
    by (simp add: sd3_params_def menu_model_not_sd3)
  have field: "map_of (sd3_params prompt negative_prompt aspect_ratio seed output_format ?m)
      ''negative_prompt'' = Some (PStr [])"
    by (simp add: sd3_params_def menu_model_not_sd3)
  have del: "AList.delete ''mask'' (AList.delete ''image''
               (sd3_params prompt [] aspect_ratio seed output_format ?m))
             = sd3_params prompt [] aspect_ratio seed output_format ?m"
    by (simp add: sd3_params_def)
  have sub: "posted_params (trace (snd (submit ev SD3_ENDPOINT
                 (sd3_params prompt [] aspect_ratio seed output_format ?m) [] w)))
       = posted_params (trace w) @ [sd3_params prompt [] aspect_ratio seed output_format ?m]"
    unfolding submit_def Let_def
    by (simp add: sd3_params_no_attachment attach_def del emit_def pass_def
          posted_params_append posted_params_close_all split: option.splits)
  have gen: "posted_params (trace (snd (generate_sd3 ev prompt [] aspect_ratio seed
                                  output_format ?m w)))
      = posted_params (trace (snd (submit ev SD3_ENDPOINT
                 (sd3_params prompt [] aspect_ratio seed output_format ?m) [] w)))"
  proof (cases "submit ev SD3_ENDPOINT
                 (sd3_params prompt [] aspect_ratio seed output_format ?m) [] w")
    case (Pair res w1)
    then show ?thesis
      by (cases res)
         (simp_all add: generate_sd3_def send_generation_request_def emit_def
            posted_params_append Let_def split: abort.splits)
  qed
  have "generate_sd3 ev prompt negative_prompt aspect_ratio seed output_format ?m w
      = generate_sd3 ev prompt [] aspect_ratio seed output_format ?m w"
    by (simp add: generate_sd3_def eq)
  with field sub gen show ?thesis by simp
qed

subsection \<open>The poll loops\<close>

lemma poll_loop_keeps_polling:
  "keeps_polling poll_interval timeout (now w - start) pre \<Longrightarrow>
   poll_loop url poll_interval timeout start (pre @ rs) w
     = poll_loop url poll_interval timeout start rs (waited url poll_interval pre w)"
proof (induction pre arbitrary: w)
  case Nil
  show ?case by simp
next
  case (Cons rp pre)
  obtain lat rep where rp: "rp = (lat, rep)" by (cases rp)
  from Cons.prems rp obtain r where rep: "rep = Some r" and st: "status_code r = 202"
    and le: "now w - start + lat \<le> timeout" and pi: "0 \<le> poll_interval"
    and rest: "keeps_polling poll_interval timeout (now w - start + lat + poll_interval) pre"
    by (cases rep) auto
  let ?w1 = "pass poll_interval (emit (Slept poll_interval) (pass lat (emit (Got url) w)))"
  have now1: "now ?w1 - start = now w - start + lat + poll_interval"
    by (simp add: pass_def emit_def)
  have okr: "ok r" using st by (simp add: ok_def)
  have step: "poll_loop url poll_interval timeout start ((lat, Some r) # pre @ rs) w
            = poll_loop url poll_interval timeout start (pre @ rs) ?w1"
    using st le pi okr by (simp add: pass_def emit_def Let_def)
  from rest have "keeps_polling poll_interval timeout (now ?w1 - start) pre"
    by (simp only: now1)
  from Cons.IH [OF this] step rp rep show ?case by simp
qed

lemma keeps_polling_replicate:
  "status_code r = 202 \<Longrightarrow> 0 \<le> poll_interval \<Longrightarrow>
   (n = 0 \<or> elapsed + real (n - 1) * poll_interval \<le> timeout) \<Longrightarrow>
   keeps_polling poll_interval timeout elapsed (replicate n (0, Some r))"
proof (induction n arbitrary: elapsed)
  case 0
  show ?case by simp
next
  case (Suc n)
  from Suc.prems have le: "elapsed + real n * poll_interval \<le> timeout" by simp
  have "0 \<le> real n * poll_interval" using Suc.prems(2) by simp
  with le have first: "elapsed \<le> timeout" by linarith
  have "n = 0 \<or> (elapsed + poll_interval) + real (n - 1) * poll_interval \<le> timeout"
  proof (cases n)
    case 0
    then show ?thesis by simp
  next
    case (Suc m)
    with le show ?thesis by (simp add: algebra_simps)
  qed
  from Suc.IH [OF Suc.prems(1) Suc.prems(2) this] Suc.prems(1) Suc.prems(2) first
  show ?case by simp
qed

lemma now_waited_replicate:
  "now (waited url poll_interval (replicate n (0, rep)) w) = now w + real n * poll_interval"
  by (induction n arbitrary: w) (simp_all add: pass_def emit_def algebra_simps)

lemma polls_issued_append:
  "polls_issued (es @ fs) = polls_issued es + polls_issued fs"
  by (induction es rule: polls_issued.induct) simp_all

lemma polls_waited:
  "polls_issued (trace (waited url poll_interval pre w)) = polls_issued (trace w) + length pre"
  by (induction pre arbitrary: w) (auto simp: pass_def emit_def polls_issued_append)

lemma poll_loop_after_202s:
  assumes "status_code r = 202" and "0 \<le> poll_interval"
    and "n = 0 \<or> real (n - 1) * poll_interval \<le> timeout"
  shows "poll_loop url poll_interval timeout (now w) (replicate n (0, Some r) @ rs) w
       = poll_loop url poll_interval timeout (now w) rs
           (waited url poll_interval (replicate n (0, Some r)) w)"
proof -
  from assms(3) have "n = 0 \<or> (now w - now w) + real (n - 1) * poll_interval \<le> timeout"
    by simp
  from keeps_polling_replicate [OF assms(1) assms(2) this]
  show ?thesis by (rule poll_loop_keeps_polling)
qed

lemma poll_loop_last:
  "poll_loop url poll_interval timeout start [(lat, Some r)] w =
     (let w1 = pass lat (emit (Got url) w)
      in if \<not> ok r then (Some (Inl (Exit (HttpFail (status_code r)))), w1)
         else if status_code r \<noteq> 202 then (Some (Inr r), w1)
         else if now w1 - start > timeout then (Some (Inl (Exit PollTimeout)), w1)
         else if poll_interval < 0 then (Some (Inl Raised), w1)
         else (None, pass poll_interval (emit (Slept poll_interval) w1)))"
  by (simp add: Let_def)

lemma now_waited:
  "now (waited url poll_interval pre w)
     = now w + sum_list (map fst pre) + real (length pre) * poll_interval"
  by (induction pre arbitrary: w) (auto simp: pass_def emit_def algebra_simps)

lemma keeps_polling_bound:
  assumes "list_all pending_reply pre" and "0 \<le> poll_interval"
    and "pre = [] \<or> elapsed + arrival poll_interval pre \<le> timeout"
  shows "keeps_polling poll_interval timeout elapsed pre"
  using assms
proof (induction pre arbitrary: elapsed)
  case Nil
  show ?case by simp
next
  case (Cons rp pre)
  obtain lat rep where rp: "rp = (lat, rep)" by (cases rp)
  from Cons.prems(1) have head: "pending_reply rp" and rest: "list_all pending_reply pre"
    by simp_all
  from head rp obtain r where rep: "rep = Some r" and st: "status_code r = 202"
    and lat: "0 \<le> lat"
    by (cases rep) (auto simp: pending_reply_def)
  from Cons.prems(3) rp
  have bound: "elapsed + lat + sum_list (map fst pre) + real (length pre) * poll_interval
                 \<le> timeout"
    by (simp add: arrival_def algebra_simps)
  have nonneg: "0 \<le> sum_list (map fst pre)"
    using rest by (intro sum_list_nonneg) (auto simp: list_all_iff pending_reply_def)
  have gaps: "0 \<le> real (length pre) * poll_interval"
    using Cons.prems(2) by simp
  from bound nonneg gaps have first: "elapsed + lat \<le> timeout" by linarith
  have "pre = [] \<or> (elapsed + lat + poll_interval) + arrival poll_interval pre \<le> timeout"
  proof (cases pre)
    case Nil
    then show ?thesis by simp
  next
    case (Cons rp' pre')
    with bound show ?thesis by (simp add: arrival_def algebra_simps)
  qed
  from Cons.IH [OF rest Cons.prems(2) this] rp rep st first Cons.prems(2)
  show ?case by simp
qed

lemma poll_loop_times_out:
  assumes "keeps_polling poll_interval timeout (now w - start) pre"
    and "status_code r = 202"
    and "now (waited url poll_interval pre w) + lat - start > timeout"
  shows "poll_loop url poll_interval timeout start (pre @ (lat, Some r) # rs) w
           = (Some (Inl (Exit PollTimeout)),
              pass lat (emit (Got url) (waited url poll_interval pre w)))"
proof -
  have "ok r" using assms(2) by (simp add: ok_def)
  with assms(2) assms(3)
  have "poll_loop url poll_interval timeout start ((lat, Some r) # rs)
          (waited url poll_interval pre w)
        = (Some (Inl (Exit PollTimeout)),
           pass lat (emit (Got url) (waited url poll_interval pre w)))"
    by (simp add: Let_def pass_def emit_def)
  with poll_loop_keeps_polling [OF assms(1), of url "(lat, Some r) # rs"]
  show ?thesis by simp
qed

lemma poll_loop_ends_on_other_status:
  assumes "keeps_polling poll_interval timeout (now w - start) pre"
    and "status_code r \<noteq> 202"
  shows "poll_loop url poll_interval timeout start (pre @ (lat, Some r) # rs) w
           = (Some (if ok r then Inr r else Inl (Exit (HttpFail (status_code r)))),
              pass lat (emit (Got url) (waited url poll_interval pre w)))"
  using poll_loop_keeps_polling [OF assms(1), of url "(lat, Some r) # rs"] assms(2)
  by (simp add: Let_def)

lemma poll_times_out_on_last:
  assumes nonempty: "rs \<noteq> []" and pending: "list_all pending_reply rs"
    and gap: "0 \<le> poll_interval"
    and late: "timeout < arrival poll_interval rs"
    and not_later: "arrival poll_interval rs \<le> timeout + poll_interval"
  shows "fst (poll_loop url poll_interval timeout (now w) (rs @ later) w)
           = Some (Inl (Exit PollTimeout))
         \<and> polls_issued (trace (snd (poll_loop url poll_interval timeout (now w) (rs @ later) w)))
             = polls_issued (trace w) + length rs
         \<and> now (snd (poll_loop url poll_interval timeout (now w) (rs @ later) w)) - now w
             = arrival poll_interval rs"
proof -
  from nonempty obtain pre rp where rs: "rs = pre @ [rp]"
    by (cases rs rule: rev_cases) simp_all
  obtain lat rep where rp: "rp = (lat, rep)" by (cases rp)
  from pending have pre_pending: "list_all pending_reply pre"
    and last_pending: "pending_reply (lat, rep)"
    by (simp_all add: rs rp)
  from last_pending obtain r where rep: "rep = Some r" and st: "status_code r = 202"
    and lat: "0 \<le> lat"
    by (cases rep) (auto simp: pending_reply_def)
  have len: "length rs = Suc (length pre)" by (simp add: rs)
  have arr: "arrival poll_interval rs
               = sum_list (map fst pre) + lat + real (length pre) * poll_interval"
    by (simp add: arrival_def rs rp)
  have pre_in_time: "pre = [] \<or> 0 + arrival poll_interval pre \<le> timeout"
  proof (cases "pre = []")
    case True
    then show ?thesis by simp
  next
    case False
    then have "real (length pre - 1) = real (length pre) - 1"
      by (cases pre) simp_all
    then have "arrival poll_interval pre
                 = sum_list (map fst pre) + real (length pre) * poll_interval - poll_interval"
      by (simp add: arrival_def algebra_simps)
    with arr not_later lat show ?thesis by simp
  qed
  have keeps: "keeps_polling poll_interval timeout (now w - now w) pre"
    using keeps_polling_bound [OF pre_pending gap pre_in_time] by simp
  have over: "now (waited url poll_interval pre w) + lat - now w > timeout"
    using late arr by (simp add: now_waited)
  have run: "poll_loop url poll_interval timeout (now w) (pre @ (lat, Some r) # later) w
           = (Some (Inl (Exit PollTimeout)),
              pass lat (emit (Got url) (waited url poll_interval pre w)))"
    using keeps st over by (rule poll_loop_times_out)
  have same: "rs @ later = pre @ (lat, Some r) # later"
    by (simp add: rs rp rep)
  have polls: "polls_issued (trace (pass lat (emit (Got url) (waited url poll_interval pre w))))
             = polls_issued (trace w) + length rs"
    by (simp add: pass_def emit_def polls_issued_append polls_waited len)
  have time: "now (pass lat (emit (Got url) (waited url poll_interval pre w))) - now w
             = arrival poll_interval rs"
    by (simp add: pass_def emit_def now_waited arr)
  from run polls time show ?thesis by (simp only: same fst_conv snd_conv)
qed

text \<open>
  Claim C1. With poll interval 10 and timeout 500, whatever time the single requests
  take: when the first 51 replies are 202 and the 51st of them arrives 510 seconds
  after the start, the loop stops there with the fatal timeout, having issued exactly
  51 polls, and no later reply is asked for; the same holds whenever the 51st arrives
  more than 500 and at most 510 seconds after the start. The loop goes on exactly while
  the replies are 202: after 202 replies that arrive in time it polls again, and any
  other reply ends it, returned when its status is a success and a fatal HTTP error
  otherwise.
\<close>

theorem poll_timeout_on_51st_response:
  "(length rs = 51 \<and> list_all pending_reply rs \<and> arrival 10 rs = 510 \<longrightarrow>
      fst (poll_loop url 10 500 (now w) (rs @ later) w) = Some (Inl (Exit PollTimeout))
    \<and> polls_issued (trace (snd (poll_loop url 10 500 (now w) (rs @ later) w)))
        = polls_issued (trace w) + 51
    \<and> now (snd (poll_loop url 10 500 (now w) (rs @ later) w)) - now w = 510)
   \<and> (length rs = 51 \<and> list_all pending_reply rs \<and> 500 < arrival 10 rs
        \<and> arrival 10 rs \<le> 510 \<longrightarrow>
      fst (poll_loop url 10 500 (now w) (rs @ later) w) = Some (Inl (Exit PollTimeout))
    \<and> polls_issued (trace (snd (poll_loop url 10 500 (now w) (rs @ later) w)))
        = polls_issued (trace w) + 51
    \<and> now (snd (poll_loop url 10 500 (now w) (rs @ later) w)) - now w = arrival 10 rs)
   \<and> (keeps_polling 10 500 0 pre \<longrightarrow>
      poll_loop url 10 500 (now w) (pre @ later) w
        = poll_loop url 10 500 (now w) later (waited url 10 pre w))
   \<and> (keeps_polling 10 500 0 pre \<and> status_code r' \<noteq> 202 \<longrightarrow>
      poll_loop url 10 500 (now w) (pre @ (lat', Some r') # later) w
        = (Some (if ok r' then Inr r' else Inl (Exit (HttpFail (status_code r')))),
           pass lat' (emit (Got url) (waited url 10 pre w))))"
proof (intro conjI impI)
  assume h: "length rs = 51 \<and> list_all pending_reply rs \<and> 500 < arrival 10 rs
             \<and> arrival 10 rs \<le> 510"
  then have ne: "rs \<noteq> []" by auto
  from h have pending: "list_all pending_reply rs" and late: "500 < arrival 10 rs"
    and not_later: "arrival 10 rs \<le> 500 + 10"
    by simp_all
  from poll_times_out_on_last [OF ne pending _ late not_later, of url w later] h
  show "fst (poll_loop url 10 500 (now w) (rs @ later) w) = Some (Inl (Exit PollTimeout))"
    and "polls_issued (trace (snd (poll_loop url 10 500 (now w) (rs @ later) w)))
           = polls_issued (trace w) + 51"
    and "now (snd (poll_loop url 10 500 (now w) (rs @ later) w)) - now w = arrival 10 rs"
    by simp_all
next
  assume h: "length rs = 51 \<and> list_all pending_reply rs \<and> arrival 10 rs = 510"
  then have ne: "rs \<noteq> []" by auto
  from h have pending: "list_all pending_reply rs" and late: "500 < arrival 10 rs"
    and not_later: "arrival 10 rs \<le> 500 + 10"
    by simp_all
  from poll_times_out_on_last [OF ne pending _ late not_later, of url w later] h
  show "fst (poll_loop url 10 500 (now w) (rs @ later) w) = Some (Inl (Exit PollTimeout))"
    and "polls_issued (trace (snd (poll_loop url 10 500 (now w) (rs @ later) w)))
           = polls_issued (trace w) + 51"
    and "now (snd (poll_loop url 10 500 (now w) (rs @ later) w)) - now w = 510"
    by simp_all
next
  assume "keeps_polling 10 500 0 pre"
  then have "keeps_polling 10 500 (now w - now w) pre" by simp
  then show "poll_loop url 10 500 (now w) (pre @ later) w
               = poll_loop url 10 500 (now w) later (waited url 10 pre w)"
    by (rule poll_loop_keeps_polling)
next
  assume h: "keeps_polling 10 500 0 pre \<and> status_code r' \<noteq> 202"
  then have "keeps_polling 10 500 (now w - now w) pre" and "status_code r' \<noteq> 202"
    by simp_all
  then show "poll_loop url 10 500 (now w) (pre @ (lat', Some r') # later) w
        = (Some (if ok r' then Inr r' else Inl (Exit (HttpFail (status_code r')))),
           pass lat' (emit (Got url) (waited url 10 pre w)))"
    by (rule poll_loop_ends_on_other_status)
qed

lemma list_all_replicate_same: "P x \<Longrightarrow> list_all P (replicate n x)"
  by (induction n) simp_all

text \<open>
  C1 on a job that stays pending while each status request takes 10/51 seconds, so
  that the 51st reply arrives at 510 seconds, and on a job that is ready at the second
  poll.
\<close>

theorem poll_timeout_on_51st_response_witness:
  "length (replicate 51 (10 / 51 :: real, Some (plain 202))) = 51
   \<and> list_all pending_reply (replicate 51 (10 / 51, Some (plain 202)))
   \<and> arrival 10 (replicate 51 (10 / 51, Some (plain 202))) = 510
   \<and> fst (poll_loop (results_url ''job-1'') 10 500 (now fresh)
            (replicate 51 (10 / 51, Some (plain 202)) @ [(0, Some (plain 200))]) fresh)
       = Some (Inl (Exit PollTimeout))
   \<and> polls_issued (trace (snd (poll_loop (results_url ''job-1'') 10 500 (now fresh)
            (replicate 51 (10 / 51, Some (plain 202)) @ [(0, Some (plain 200))]) fresh))) = 51
   \<and> now (snd (poll_loop (results_url ''job-1'') 10 500 (now fresh)
            (replicate 51 (10 / 51, Some (plain 202)) @ [(0, Some (plain 200))]) fresh))
         - now fresh = 510
   \<and> keeps_polling 10 500 0 [(1 / 2, Some (plain 202))]
   \<and> status_code (plain 200) \<noteq> 202
   \<and> fst (poll_loop (results_url ''job-1'') 10 500 (now fresh)
            ([(1 / 2, Some (plain 202))] @ (1 / 4, Some (plain 200)) # [(0, Some (plain 200))])
            fresh) = Some (Inr (plain 200))"
proof -
  let ?rs = "replicate 51 (10 / 51 :: real, Some (plain 202))"
  have len: "length ?rs = 51" by simp
  have "pending_reply (10 / 51, Some (plain 202))"
    by (simp add: pending_reply_def plain_def)
  then have pending: "list_all pending_reply ?rs" by (rule list_all_replicate_same)
  have at510: "arrival 10 ?rs = 510"
    by (simp add: arrival_def sum_list_replicate)
  have keeps: "keeps_polling 10 500 0 [(1 / 2, Some (plain 202))]"
    by (simp add: plain_def)
  have other: "status_code (plain 200) \<noteq> 202" by (simp add: plain_def)
  have okr: "ok (plain 200)" by (simp add: ok_def plain_def)
  have start: "polls_issued (trace fresh) = 0" by (simp add: fresh_def)
  from poll_timeout_on_51st_response
         [where rs = ?rs and pre = "[(1 / 2, Some (plain 202))]" and r' = "plain 200"
            and lat' = "1 / 4" and later = "[(0, Some (plain 200))]" and w = fresh
            and url = "results_url ''job-1''"]
    len pending at510 keeps other okr start
  show ?thesis by simp
qed

lemma files_written_append:
  "files_written (es @ fs) = files_written es @ files_written fs"
  by (induction es rule: files_written.induct) simp_all

lemma video_poll_after_202s:
  "status_code r = 202 \<Longrightarrow>
   video_poll url seed (replicate n (lat, Some r) @ rs) w
     = video_poll url seed rs (waited url 10 (replicate n (lat, Some r)) w)"
  by (induction n arbitrary: w) simp_all

lemma loops_agree_from:
  assumes "list_all common_status rs"
    and "fst (poll_loop u1 10 timeout start rs w1) \<noteq> Some (Inl (Exit PollTimeout))"
    and "now w1 = now w2"
  shows "shared_verdict (poll_loop u1 10 timeout start rs w1)
           = video_verdict (video_poll u2 seed rs w2)
         \<and> now (snd (poll_loop u1 10 timeout start rs w1))
             = now (snd (video_poll u2 seed rs w2))
         \<and> polls_issued (trace (snd (poll_loop u1 10 timeout start rs w1)))
               + polls_issued (trace w2)
             = polls_issued (trace (snd (video_poll u2 seed rs w2)))
               + polls_issued (trace w1)"
  using assms
proof (induction rs arbitrary: w1 w2)
  case Nil
  then show ?case by (simp add: shared_verdict_def video_verdict_def)
next
  case (Cons rp rs)
  obtain lat rep where rp: "rp = (lat, rep)" by (cases rp)
  show ?case
  proof (cases rep)
    case None
    with rp Cons.prems(3) show ?thesis
      by (simp add: shared_verdict_def video_verdict_def pass_def emit_def
            polls_issued_append)
  next
    case (Some r)
    from Cons.prems(1) rp Some
    consider (ready) "status_code r = 200" | (pending) "status_code r = 202"
      | (failed) "400 \<le> status_code r \<and> status_code r < 600"
      by (auto simp: common_status_def)
    then show ?thesis
    proof cases
      case ready
      with rp Some Cons.prems(3) show ?thesis
        by (simp add: shared_verdict_def video_verdict_def pass_def emit_def ok_def
              polls_issued_append files_written_append Let_def)
    next
      case failed
      with rp Some Cons.prems(3) show ?thesis
        by (simp add: shared_verdict_def video_verdict_def pass_def emit_def ok_def
              polls_issued_append Let_def)
    next
      case pending
      let ?v1 = "pass 10 (emit (Slept 10) (pass lat (emit (Got u1) w1)))"
      let ?v2 = "pass 10 (emit (Slept 10) (pass lat (emit (Got u2) w2)))"
      have okr: "ok r" using pending by (simp add: ok_def)
      have in_time: "\<not> now (pass lat (emit (Got u1) w1)) - start > timeout"
      proof
        assume "now (pass lat (emit (Got u1) w1)) - start > timeout"
        with pending okr rp Some
        have "fst (poll_loop u1 10 timeout start (rp # rs) w1) = Some (Inl (Exit PollTimeout))"
          by (simp add: Let_def)
        with Cons.prems(2) show False by simp
      qed
      with pending okr rp Some
      have step1: "poll_loop u1 10 timeout start (rp # rs) w1 = poll_loop u1 10 timeout start rs ?v1"
        by (simp add: Let_def)
      from pending rp Some
      have step2: "video_poll u2 seed (rp # rs) w2 = video_poll u2 seed rs ?v2"
        by (simp add: Let_def)
      have all: "list_all common_status rs" using Cons.prems(1) by simp
      have no_to: "fst (poll_loop u1 10 timeout start rs ?v1) \<noteq> Some (Inl (Exit PollTimeout))"
        using Cons.prems(2) step1 by simp
      have nows: "now ?v1 = now ?v2" using Cons.prems(3) by (simp add: pass_def emit_def)
      have p1: "polls_issued (trace ?v1) = Suc (polls_issued (trace w1))"
        by (simp add: pass_def emit_def polls_issued_append)
      have p2: "polls_issued (trace ?v2) = Suc (polls_issued (trace w2))"
        by (simp add: pass_def emit_def polls_issued_append)
      from Cons.IH [OF all no_to nows] p1 p2 show ?thesis
        by (simp only: step1 step2) simp
    qed
  qed
qed

text \<open>
  Claim C2, amended. On every sequence of poll replies in which each status is 200,
  202 or an error status (400 to 599), and on which the shared poller does not reach
  its timeout, the shared poller (interval 10, timeout 500) and the loop of
  \<open>generate_video\<close> come to the same end: the same payload delivered, or both fatal,
  or both stopped by an exception, or both still polling when the replies run out,
  after the same number of polls and at the same time. (The video loop has no timeout,
  and treats every status other than 200 and 202 as fatal.)
\<close>

theorem loops_agree_on_common_replies:
  assumes "list_all common_status rs"
    and "fst (poll_loop (results_url job) 10 500 (now w) rs w) \<noteq> Some (Inl (Exit PollTimeout))"
  shows "shared_verdict (poll_loop (results_url job) 10 500 (now w) rs w)
           = video_verdict (video_poll (video_result_url job) seed rs w)
         \<and> now (snd (poll_loop (results_url job) 10 500 (now w) rs w))
             = now (snd (video_poll (video_result_url job) seed rs w))
         \<and> polls_issued (trace (snd (poll_loop (results_url job) 10 500 (now w) rs w)))
             = polls_issued (trace (snd (video_poll (video_result_url job) seed rs w)))"
  using loops_agree_from [OF assms refl, of "video_result_url job" seed] by simp

text \<open>
  The amended C2 on a job that is pending once and then ready.
\<close>

theorem loops_agree_on_common_replies_witness:
  "list_all common_status [(0, Some (plain 202)), (3, Some (plain 200))]
   \<and> fst (poll_loop (results_url ''job-1'') 10 500 (now fresh)
            [(0, Some (plain 202)), (3, Some (plain 200))] fresh)
       \<noteq> Some (Inl (Exit PollTimeout))
   \<and> shared_verdict (poll_loop (results_url ''job-1'') 10 500 (now fresh)
            [(0, Some (plain 202)), (3, Some (plain 200))] fresh) = Some (Delivered ''payload'')
   \<and> video_verdict (video_poll (video_result_url ''job-1'') 42
            [(0, Some (plain 202)), (3, Some (plain 200))] fresh) = Some (Delivered ''payload'')"
proof -
  let ?rs = "[(0::real, Some (plain 202)), (3, Some (plain 200))]"
  have a: "list_all common_status ?rs"
    by (simp add: common_status_def plain_def)
  have b: "fst (poll_loop (results_url ''job-1'') 10 500 (now fresh) ?rs fresh)
             \<noteq> Some (Inl (Exit PollTimeout))"
    by (simp add: plain_def ok_def pass_def emit_def Let_def)
  have c: "shared_verdict (poll_loop (results_url ''job-1'') 10 500 (now fresh) ?rs fresh)
             = Some (Delivered ''payload'')"
    by (simp add: shared_verdict_def plain_def ok_def pass_def emit_def Let_def)
  from loops_agree_on_common_replies [OF a b, of 42] a b c show ?thesis by simp
qed

text \<open>
  Claim C2 as stated fails, on the status conditions and on the timeout: a 204 reply
  is a result for the shared poller and fatal for the video loop; and after 52
  immediate 202 replies the shared poller has stopped with its timeout, while the video
  loop polls on and saves the result that the 53rd poll finds.
\<close>

theorem loops_differ:
  "shared_verdict (poll_loop (results_url ''job-1'') 10 500 (now fresh)
      [(0, Some (plain 204))] fresh) = Some (Delivered ''payload'')
   \<and> video_verdict (video_poll (video_result_url ''job-1'') 42
      [(0, Some (plain 204))] fresh) = Some Fatal
   \<and> shared_verdict (poll_loop (results_url ''job-1'') 10 500 (now fresh)
      (replicate 52 (0, Some (plain 202)) @ [(0, Some (plain 200))]) fresh) = Some Fatal
   \<and> video_verdict (video_poll (video_result_url ''job-1'') 42
      (replicate 52 (0, Some (plain 202)) @ [(0, Some (plain 200))]) fresh)
       = Some (Delivered ''payload'')"
proof -
  have st: "status_code (plain 202) = 202" by (simp add: plain_def)
  have a: "shared_verdict (poll_loop (results_url ''job-1'') 10 500 (now fresh)
      [(0, Some (plain 204))] fresh) = Some (Delivered ''payload'')"
    by (simp add: shared_verdict_def plain_def ok_def pass_def emit_def Let_def)
  have b: "video_verdict (video_poll (video_result_url ''job-1'') 42
      [(0, Some (plain 204))] fresh) = Some Fatal"
    by (simp add: video_verdict_def plain_def pass_def emit_def Let_def)
  have split: "replicate 52 (0::real, Some (plain 202)) @ [(0, Some (plain 200))]
      = replicate 51 (0, Some (plain 202)) @ [(0, Some (plain 202)), (0, Some (plain 200))]"
    using replicate_add [of 51 1 "(0::real, Some (plain 202))"] by simp
  have "poll_loop (results_url ''job-1'') 10 500 (now fresh)
          (replicate 51 (0, Some (plain 202)) @ [(0, Some (plain 202)), (0, Some (plain 200))])
          fresh
      = poll_loop (results_url ''job-1'') 10 500 (now fresh)
          [(0, Some (plain 202)), (0, Some (plain 200))]
          (waited (results_url ''job-1'') 10 (replicate 51 (0, Some (plain 202))) fresh)"
    using st by (intro poll_loop_after_202s) simp_all
  then have "fst (poll_loop (results_url ''job-1'') 10 500 (now fresh)
          (replicate 51 (0, Some (plain 202)) @ [(0, Some (plain 202)), (0, Some (plain 200))])
          fresh) = Some (Inl (Exit PollTimeout))"
    by (simp add: plain_def ok_def pass_def emit_def Let_def now_waited_replicate)
  then have "fst (poll_loop (results_url ''job-1'') 10 500 (now fresh)
      (replicate 52 (0, Some (plain 202)) @ [(0, Some (plain 200))]) fresh)
       = Some (Inl (Exit PollTimeout))"
    by (simp only: split)
  then have c: "shared_verdict (poll_loop (results_url ''job-1'') 10 500 (now fresh)
      (replicate 52 (0, Some (plain 202)) @ [(0, Some (plain 200))]) fresh) = Some Fatal"
    by (simp add: shared_verdict_def)
  have d: "video_verdict (video_poll (video_result_url ''job-1'') 42
      (replicate 52 (0, Some (plain 202)) @ [(0, Some (plain 200))]) fresh)
       = Some (Delivered ''payload'')"
  proof -
    have "video_poll (video_result_url ''job-1'') 42
            (replicate 52 (0, Some (plain 202)) @ [(0, Some (plain 200))]) fresh
        = video_poll (video_result_url ''job-1'') 42 [(0, Some (plain 200))]
            (waited (video_result_url ''job-1'') 10 (replicate 52 (0, Some (plain 202))) fresh)"
      using st by (rule video_poll_after_202s)
    then show ?thesis
      by (simp add: video_verdict_def plain_def pass_def emit_def Let_def files_written_append)
  qed
  from a b c d show ?thesis by simp
qed

subsection \<open>Runs of the generation functions\<close>

lemmas run_defs =
  site_def fresh_def accepted_def plain_def filtered_def ok_def emit_def pass_def
  submit_def send_generation_request_def send_async_generation_request_def attach_def
  results_url_def video_result_url_def Let_def

text \<open>
  Claim C3 at a submit response whose job identifier is the empty string. The shared
  poller only tests \<open>generation_id is None\<close>: it goes on to poll the results URL with
  nothing after the last slash, and \<open>upscale_image\<close> saves what that poll returns.
  \<open>generate_video\<close>, which tests \<open>not generation_id\<close>, stops on the same response
  before any poll.
\<close>

theorem empty_job_id_is_polled:
  "send_async_generation_request (site (0, Some (accepted [])) [(0, Some (plain 200))])
       UPSCALER_ENDPOINT [] [] 10 500 fresh
     = (Some (Inr (plain 200)),
        \<lparr>trace = [Posted UPSCALER_ENDPOINT [(''none'', EmptyPart)] [],
                  Got ''https://api.stability.ai/v2beta/results/''],
         now = 1700000000\<rparr>)
   \<and> upscale_image (site (0, Some (accepted [])) [(0, Some (plain 200))])
       ''in/cat.png'' ''sharper'' [] 42 0.3 ''jpeg'' fresh
     = (Some (Inr ''upscaled_cat_42.jpeg''),
        \<lparr>trace = [Opened ''in/cat.png'',
                  Posted UPSCALER_ENDPOINT [(''image'', FileHandle ''in/cat.png'')]
                    (upscale_params ''sharper'' [] 42 0.3 ''jpeg''),
                  Closed ''in/cat.png'',
                  Got ''https://api.stability.ai/v2beta/results/'',
                  Closed ''in/cat.png'',
                  Wrote ''upscaled_cat_42.jpeg'' ''payload''],
         now = 1700000000\<rparr>)
   \<and> generate_video (site (0, Some (accepted [])) [(0, Some (plain 200))])
       ''in/cat.png'' 42 7.5 127 fresh
     = (Some (Inl (Exit NoJobId)),
        \<lparr>trace = [Opened ''in/cat.png'',
                  Posted VIDEO_GENERATION_ENDPOINT [(''image'', FileHandle ''in/cat.png'')]
                    (video_params 42 7.5 127),
                  Closed ''in/cat.png''],
         now = 1700000000\<rparr>)"
proof -
  have a: "send_async_generation_request (site (0, Some (accepted [])) [(0, Some (plain 200))])
       UPSCALER_ENDPOINT [] [] 10 500 fresh
     = (Some (Inr (plain 200)),
        \<lparr>trace = [Posted UPSCALER_ENDPOINT [(''none'', EmptyPart)] [],
                  Got ''https://api.stability.ai/v2beta/results/''],
         now = 1700000000\<rparr>)"
    by (simp add: run_defs)
  have b: "upscale_image (site (0, Some (accepted [])) [(0, Some (plain 200))])
       ''in/cat.png'' ''sharper'' [] 42 0.3 ''jpeg'' fresh
     = (Some (Inr ''upscaled_cat_42.jpeg''),
        \<lparr>trace = [Opened ''in/cat.png'',
                  Posted UPSCALER_ENDPOINT [(''image'', FileHandle ''in/cat.png'')]
                    (upscale_params ''sharper'' [] 42 0.3 ''jpeg''),
                  Closed ''in/cat.png'',
                  Got ''https://api.stability.ai/v2beta/results/'',
                  Closed ''in/cat.png'',
                  Wrote ''upscaled_cat_42.jpeg'' ''payload''],
         now = 1700000000\<rparr>)"
    by (simp add: upscale_image_def run_defs upscale_params_def finish_reason_def
          header_get_def CONTENT_FILTERED_def str_int_def str_nat.simps digit_char_def)
  have c: "generate_video (site (0, Some (accepted [])) [(0, Some (plain 200))])
       ''in/cat.png'' 42 7.5 127 fresh
     = (Some (Inl (Exit NoJobId)),
        \<lparr>trace = [Opened ''in/cat.png'',
                  Posted VIDEO_GENERATION_ENDPOINT [(''image'', FileHandle ''in/cat.png'')]
                    (video_params 42 7.5 127),
                  Closed ''in/cat.png''],
         now = 1700000000\<rparr>)"
    by (simp add: generate_video_def run_defs)
  from a b c show ?thesis by simp
qed

text \<open>
  Claim C6 when \<open>requests.post\<close> raises. \<open>generate_3d\<close> passes the image path in the
  parameters, \<open>send_generation_request\<close> opens it, and the exception leaves the
  function before the closing loop: the handle is still open when the invocation ends.
  The same holds for \<open>send_async_generation_request\<close>. After an HTTP error response
  the handle has been closed.
\<close>

theorem handle_left_open_when_post_raises:
  "generate_3d (site (0, None) []) ''in/cat.png'' ''1024'' 0.85 ''triangle'' 20000 fresh
     = (Inl (Exit RequestError),
        \<lparr>trace = [Opened ''in/cat.png'',
                  Posted THREE_D_GENERATION_ENDPOINT [(''image'', FileHandle ''in/cat.png'')]
                    [(''texture_resolution'', PStr ''1024''), (''foreground_ratio'', PReal 0.85),
                     (''remesh'', PStr ''triangle''), (''vertex_count'', PInt 20000)]],
         now = 1700000000\<rparr>)
   \<and> open_handles (trace (snd (generate_3d (site (0, None) []) ''in/cat.png'' ''1024'' 0.85
                                  ''triangle'' 20000 fresh))) [] = [''in/cat.png'']
   \<and> open_handles (trace (snd (send_generation_request (site (0, None) [])
          THREE_D_GENERATION_ENDPOINT [(''image'', PStr ''in/cat.png'')] [] fresh))) []
       = [''in/cat.png'']
   \<and> open_handles (trace (snd (send_async_generation_request (site (0, None) [])
          UPSCALER_ENDPOINT [(''image'', PStr ''in/cat.png'')] [] 10 500 fresh))) []
       = [''in/cat.png'']
   \<and> open_handles (trace (snd (generate_3d (site (0, Some (plain 500)) []) ''in/cat.png''
                                  ''1024'' 0.85 ''triangle'' 20000 fresh))) [] = []"
proof -
  have a: "generate_3d (site (0, None) []) ''in/cat.png'' ''1024'' 0.85 ''triangle'' 20000 fresh
     = (Inl (Exit RequestError),
        \<lparr>trace = [Opened ''in/cat.png'',
                  Posted THREE_D_GENERATION_ENDPOINT [(''image'', FileHandle ''in/cat.png'')]
                    [(''texture_resolution'', PStr ''1024''), (''foreground_ratio'', PReal 0.85),
                     (''remesh'', PStr ''triangle''), (''vertex_count'', PInt 20000)]],
         now = 1700000000\<rparr>)"
    by (simp add: generate_3d_def three_d_params_def run_defs)
  have b: "open_handles (trace (snd (send_generation_request (site (0, None) [])
          THREE_D_GENERATION_ENDPOINT [(''image'', PStr ''in/cat.png'')] [] fresh))) []
       = [''in/cat.png'']"
    by (simp add: run_defs)
  have c: "open_handles (trace (snd (send_async_generation_request (site (0, None) [])
          UPSCALER_ENDPOINT [(''image'', PStr ''in/cat.png'')] [] 10 500 fresh))) []
       = [''in/cat.png'']"
    by (simp add: run_defs)
  have d: "open_handles (trace (snd (generate_3d (site (0, Some (plain 500)) []) ''in/cat.png''
                                  ''1024'' 0.85 ''triangle'' 20000 fresh))) [] = []"
    by (simp add: generate_3d_def three_d_params_def run_defs)
  from a b c d show ?thesis by simp
qed

subsection \<open>Content moderation and the pixel limit\<close>

lemma files_written_close_all:
  "files_written (trace (close_all fs w)) = files_written (trace w)"
  by (induction fs w rule: close_all.induct) (simp_all add: emit_def files_written_append)

lemma files_written_attach:
  "files_written (trace (snd (attach ev name v fw))) = files_written (trace (snd fw))"
  by (simp add: attach_def emit_def files_written_append split: option.splits pval.splits)

lemma files_written_submit:
  "files_written (trace (snd (submit ev host ps fs w))) = files_written (trace w)"
  by (simp add: submit_def Let_def emit_def pass_def files_written_append
        files_written_close_all files_written_attach split: option.splits)

lemma fst_submit_replied:
  "snd (post_reply ev) = Some r \<Longrightarrow>
   fst (submit ev host ps fs w) = (if ok r then Inr r else Inl (Exit (HttpFail (status_code r))))"
  by (simp add: submit_def Let_def)

lemma files_written_poll_loop:
  "files_written (trace (snd (poll_loop url poll_interval timeout start rs w)))
     = files_written (trace w)"
proof (induction rs arbitrary: w)
  case Nil
  show ?case by simp
next
  case (Cons rp rs)
  obtain lat rep where rp: "rp = (lat, rep)" by (cases rp)
  have step: "files_written (trace (pass poll_interval (emit (Slept poll_interval)
                 (pass lat (emit (Got url) w))))) = files_written (trace w)"
    by (simp add: pass_def emit_def files_written_append)
  show ?case
    by (simp add: rp Let_def Cons.IH step split: option.splits)
       (simp add: pass_def emit_def files_written_append)
qed

lemma files_written_send_async:
  "files_written (trace (snd (send_async_generation_request ev host ps fs poll_interval timeout w)))
     = files_written (trace w)"
proof (cases "submit ev host ps fs w")
  case (Pair res w1)
  have w1: "files_written (trace w1) = files_written (trace w)"
    using files_written_submit [of ev host ps fs w] Pair by simp
  show ?thesis
    by (cases res)
       (simp_all add: send_async_generation_request_def Pair w1 files_written_poll_loop
          split: option.splits)
qed

lemma image_filtered:
  assumes "snd (post_reply ev) = Some r" and "finish_reason r = CONTENT_FILTERED"
  shows "fst (generate_image ev prompt negative_prompt aspect_ratio seed output_format w)
           = Inl (Exit (if ok r then Filtered else HttpFail (status_code r)))
         \<and> files_written (trace (snd (generate_image ev prompt negative_prompt aspect_ratio seed
                                        output_format w))) = files_written (trace w)"
proof (cases "submit ev IMAGE_GENERATION_ENDPOINT
                (image_params prompt negative_prompt aspect_ratio seed output_format) [] w")
  case (Pair res w1)
  have w1: "files_written (trace w1) = files_written (trace w)"
    using files_written_submit [of ev IMAGE_GENERATION_ENDPOINT
            "image_params prompt negative_prompt aspect_ratio seed output_format" "[]" w] Pair
    by simp
  have res: "res = (if ok r then Inr r else Inl (Exit (HttpFail (status_code r))))"
    using fst_submit_replied [OF assms(1), of IMAGE_GENERATION_ENDPOINT
            "image_params prompt negative_prompt aspect_ratio seed output_format" "[]" w] Pair
    by simp
  show ?thesis
    by (simp add: generate_image_def send_generation_request_def Pair res w1 assms(2))
qed

lemma sd3_filtered:
  assumes "snd (post_reply ev) = Some r" and "finish_reason r = CONTENT_FILTERED"
  shows "fst (generate_sd3 ev prompt negative_prompt aspect_ratio seed output_format model w)
           = Inl (Exit (if ok r then Filtered else HttpFail (status_code r)))
         \<and> files_written (trace (snd (generate_sd3 ev prompt negative_prompt aspect_ratio seed
                                        output_format model w))) = files_written (trace w)"
proof (cases "submit ev SD3_ENDPOINT
                (sd3_params prompt negative_prompt aspect_ratio seed output_format model) [] w")
  case (Pair res w1)
  have w1: "files_written (trace w1) = files_written (trace w)"
    using files_written_submit [of ev SD3_ENDPOINT
            "sd3_params prompt negative_prompt aspect_ratio seed output_format model" "[]" w] Pair
    by simp
  have res: "res = (if ok r then Inr r else Inl (Exit (HttpFail (status_code r))))"
    using fst_submit_replied [OF assms(1), of SD3_ENDPOINT
            "sd3_params prompt negative_prompt aspect_ratio seed output_format model" "[]" w] Pair
    by simp
  show ?thesis
    by (simp add: generate_sd3_def send_generation_request_def Pair res w1 assms(2))
qed

lemma sketch_filtered:
  assumes "snd (post_reply ev) = Some r" and "finish_reason r = CONTENT_FILTERED"
    and "path_exists ev input_image"
  shows "fst (sketch_to_image ev input_image prompt negative_prompt control_strength seed
                output_format w)
           = Inl (Exit (if ok r then Filtered else HttpFail (status_code r)))
         \<and> files_written (trace (snd (sketch_to_image ev input_image prompt negative_prompt
                                        control_strength seed output_format w)))
             = files_written (trace w)"
  using assms
  by (simp add: sketch_to_image_def Let_def emit_def pass_def files_written_append)

lemma send_async_polled:
  assumes post: "snd (post_reply ev) = Some r0" and ok0: "ok r0"
    and body: "body_json r0 = Some d" and job: "map_of d ''id'' = Some job"
    and polls: "get_replies ev = pre @ (lat, Some r) # rest"
    and pending: "keeps_polling poll_interval timeout 0 pre"
    and final: "status_code r \<noteq> 202"
  shows "fst (send_async_generation_request ev host ps fs poll_interval timeout w)
           = Some (if ok r then Inr r else Inl (Exit (HttpFail (status_code r))))"
proof (cases "submit ev host ps fs w")
  case (Pair res w1)
  have res: "res = Inr r0"
    using fst_submit_replied [OF post, of host ps fs w] Pair ok0 by simp
  have "keeps_polling poll_interval timeout (now w1 - now w1) pre"
    using pending by simp
  then have "poll_loop (results_url job) poll_interval timeout (now w1)
               (pre @ (lat, Some r) # rest) w1
           = poll_loop (results_url job) poll_interval timeout (now w1) ((lat, Some r) # rest)
               (waited (results_url job) poll_interval pre w1)"
    by (rule poll_loop_keeps_polling)
  then have "fst (poll_loop (results_url job) poll_interval timeout (now w1)
               (pre @ (lat, Some r) # rest) w1)
           = Some (if ok r then Inr r else Inl (Exit (HttpFail (status_code r))))"
    using final by (simp add: Let_def)
  then show ?thesis
    by (simp add: send_async_generation_request_def Pair res body job polls)
qed

lemma files_written_upscale_fatal:
  assumes "fst (upscale_image ev input_image prompt negative_prompt seed creativity
                  output_format w) = Some (Inl a)"
  shows "files_written (trace (snd (upscale_image ev input_image prompt negative_prompt seed
                                      creativity output_format w))) = files_written (trace w)"
proof (cases "path_exists ev input_image")
  case False
  then show ?thesis by (simp add: upscale_image_def)
next
  case True
  show ?thesis
  proof (cases "image_size ev input_image")
    case None
    with True show ?thesis by (simp add: upscale_image_def)
  next
    case (Some sz)
    obtain width height where sz: "sz = (width, height)" by (cases sz)
    show ?thesis
    proof (cases "width * height > 1048576")
      case True
      with \<open>path_exists ev input_image\<close> Some sz show ?thesis
        by (simp add: upscale_image_def)
    next
      case False
      let ?run = "send_async_generation_request ev UPSCALER_ENDPOINT
                    (upscale_params prompt negative_prompt seed creativity output_format)
                    [(''image'', FileHandle input_image)] 10 500 (emit (Opened input_image) w)"
      obtain res w2 where run: "?run = (res, w2)" by (cases ?run)
      have w2: "files_written (trace w2) = files_written (trace w)"
        using files_written_send_async [of ev UPSCALER_ENDPOINT
                "upscale_params prompt negative_prompt seed creativity output_format"
                "[(''image'', FileHandle input_image)]" 10 500 "emit (Opened input_image) w"] run
        by (simp add: emit_def files_written_append)
      have unfolded: "upscale_image ev input_image prompt negative_prompt seed creativity
                        output_format w
          = (case (res, w2) of
               (None, w2) \<Rightarrow> (None, w2)
             | (Some (Inl Raised), w2) \<Rightarrow>
                 (Some (Inl (Exit RequestError)), emit (Closed input_image) w2)
             | (Some (Inl (Exit x)), w2) \<Rightarrow>
                 (Some (Inl (Exit x)), emit (Closed input_image) w2)
             | (Some (Inr r), w2) \<Rightarrow>
                 (let w3 = emit (Closed input_image) w2
                  in if \<not> ok r then (Some (Inl (Exit (HttpFail (status_code r)))), w3)
                     else if finish_reason r = CONTENT_FILTERED
                     then (Some (Inl (Exit Filtered)), w3)
                     else (let upscaled = ''upscaled_'' @ stem_of ev input_image @ ''_''
                                            @ str_int seed @ ''.'' @ output_format
                           in (Some (Inr upscaled), emit (Wrote upscaled (content r)) w3))))"
        using \<open>path_exists ev input_image\<close> Some sz False run
        by (simp add: upscale_image_def Let_def)
      from assms show ?thesis
        unfolding unfolded
        by (auto simp: Let_def emit_def files_written_append w2
              split: option.splits sum.splits abort.splits if_splits)
    qed
  qed
qed

lemma upscale_filtered:
  assumes there: "path_exists ev input_image"
    and size: "image_size ev input_image = Some (width, height)"
    and small: "width * height \<le> 1048576"
    and post: "snd (post_reply ev) = Some r0" and ok0: "ok r0"
    and body: "body_json r0 = Some d" and job: "map_of d ''id'' = Some job"
    and polls: "get_replies ev = pre @ (lat, Some r) # rest"
    and pending: "keeps_polling 10 500 0 pre"
    and final: "status_code r \<noteq> 202"
    and marked: "finish_reason r = CONTENT_FILTERED"
  shows "fst (upscale_image ev input_image prompt negative_prompt seed creativity output_format w)
           = Some (Inl (Exit (if ok r then Filtered else HttpFail (status_code r))))
         \<and> files_written (trace (snd (upscale_image ev input_image prompt negative_prompt seed
                                        creativity output_format w))) = files_written (trace w)"
proof -
  let ?run = "send_async_generation_request ev UPSCALER_ENDPOINT
                (upscale_params prompt negative_prompt seed creativity output_format)
                [(''image'', FileHandle input_image)] 10 500 (emit (Opened input_image) w)"
  obtain res w2 where run: "?run = (res, w2)" by (cases ?run)
  have "fst ?run = Some (if ok r then Inr r else Inl (Exit (HttpFail (status_code r))))"
    using post ok0 body job polls pending final by (rule send_async_polled)
  with run have res: "res = Some (if ok r then Inr r else Inl (Exit (HttpFail (status_code r))))"
    by simp
  have verdict: "fst (upscale_image ev input_image prompt negative_prompt seed creativity
                        output_format w)
      = Some (Inl (Exit (if ok r then Filtered else HttpFail (status_code r))))"
    using there size small run marked
    by (simp add: upscale_image_def Let_def res)
  from verdict files_written_upscale_fatal [OF verdict] show ?thesis by simp
qed

text \<open>
  Claim C4. Let a response carry the header \<open>finish-reason: CONTENT_FILTERED\<close> and a
  success status. When it is the reply to the POST of \<open>generate_image\<close>,
  \<open>generate_sd3\<close> or \<open>sketch_to_image\<close> (on an existing sketch), or the final reply the
  poller hands to \<open>upscale_image\<close> (on an existing image within the pixel limit, after
  an accepted submission and any number of pending polls), the invocation ends with the
  fatal content-filter exit and writes no file.
\<close>

theorem content_filtered_stops_image_modes:
  assumes marked: "finish_reason r = CONTENT_FILTERED" and success: "ok r"
  shows "(snd (post_reply ev) = Some r \<longrightarrow>
            fst (generate_image ev prompt negative_prompt aspect_ratio seed output_format w)
              = Inl (Exit Filtered)
          \<and> files_written (trace (snd (generate_image ev prompt negative_prompt aspect_ratio seed
                 output_format w))) = files_written (trace w)
          \<and> fst (generate_sd3 ev prompt negative_prompt aspect_ratio seed output_format model w)
              = Inl (Exit Filtered)
          \<and> files_written (trace (snd (generate_sd3 ev prompt negative_prompt aspect_ratio seed
                 output_format model w))) = files_written (trace w))
       \<and> (snd (post_reply ev) = Some r \<and> path_exists ev input_image \<longrightarrow>
            fst (sketch_to_image ev input_image prompt negative_prompt control_strength seed
                   output_format w) = Inl (Exit Filtered)
          \<and> files_written (trace (snd (sketch_to_image ev input_image prompt negative_prompt
                 control_strength seed output_format w))) = files_written (trace w))
       \<and> (path_exists ev input_image \<and> image_size ev input_image = Some (width, height)
            \<and> width * height \<le> 1048576
            \<and> snd (post_reply ev) = Some r0 \<and> ok r0 \<and> body_json r0 = Some d
            \<and> map_of d ''id'' = Some job
            \<and> get_replies ev = pre @ (lat, Some r) # rest \<and> keeps_polling 10 500 0 pre
            \<and> status_code r \<noteq> 202 \<longrightarrow>
            fst (upscale_image ev input_image prompt negative_prompt seed creativity
                   output_format w) = Some (Inl (Exit Filtered))
          \<and> files_written (trace (snd (upscale_image ev input_image prompt negative_prompt seed
                 creativity output_format w))) = files_written (trace w))"
proof (intro conjI impI)
  assume post: "snd (post_reply ev) = Some r"
  from image_filtered [OF post marked, of prompt negative_prompt aspect_ratio seed output_format w]
    success
  show "fst (generate_image ev prompt negative_prompt aspect_ratio seed output_format w)
          = Inl (Exit Filtered)"
    and "files_written (trace (snd (generate_image ev prompt negative_prompt aspect_ratio seed
           output_format w))) = files_written (trace w)"
    by simp_all
  from sd3_filtered [OF post marked, of prompt negative_prompt aspect_ratio seed output_format
         model w] success
  show "fst (generate_sd3 ev prompt negative_prompt aspect_ratio seed output_format model w)
          = Inl (Exit Filtered)"
    and "files_written (trace (snd (generate_sd3 ev prompt negative_prompt aspect_ratio seed
           output_format model w))) = files_written (trace w)"
    by simp_all
next
  assume h: "snd (post_reply ev) = Some r \<and> path_exists ev input_image"
  then have post: "snd (post_reply ev) = Some r" and there: "path_exists ev input_image"
    by simp_all
  from sketch_filtered [OF post marked there, of prompt negative_prompt control_strength seed
         output_format w] success
  show "fst (sketch_to_image ev input_image prompt negative_prompt control_strength seed
               output_format w) = Inl (Exit Filtered)"
    and "files_written (trace (snd (sketch_to_image ev input_image prompt negative_prompt
           control_strength seed output_format w))) = files_written (trace w)"
    by simp_all
next
  assume h: "path_exists ev input_image \<and> image_size ev input_image = Some (width, height)
            \<and> width * height \<le> 1048576
            \<and> snd (post_reply ev) = Some r0 \<and> ok r0 \<and> body_json r0 = Some d
            \<and> map_of d ''id'' = Some job
            \<and> get_replies ev = pre @ (lat, Some r) # rest \<and> keeps_polling 10 500 0 pre
            \<and> status_code r \<noteq> 202"
  then have there: "path_exists ev input_image"
    and size: "image_size ev input_image = Some (width, height)"
    and small: "width * height \<le> 1048576"
    and post: "snd (post_reply ev) = Some r0" and ok0: "ok r0"
    and body: "body_json r0 = Some d" and job: "map_of d ''id'' = Some job"
    and polls: "get_replies ev = pre @ (lat, Some r) # rest"
    and pending: "keeps_polling 10 500 0 pre"
    and final: "status_code r \<noteq> 202"
    by simp_all
  from upscale_filtered [OF there size small post ok0 body job polls pending final marked,
         of prompt negative_prompt seed creativity output_format w] success
  show "fst (upscale_image ev input_image prompt negative_prompt seed creativity
               output_format w) = Some (Inl (Exit Filtered))"
    and "files_written (trace (snd (upscale_image ev input_image prompt negative_prompt seed
           creativity output_format w))) = files_written (trace w)"
    by simp_all
qed

text \<open>
  C4 on a service that marks every result as filtered, with status 200: each of the
  four modes exits, and the upscale run has written nothing.
\<close>

theorem content_filtered_stops_image_modes_witness:
  "finish_reason (filtered 200) = CONTENT_FILTERED \<and> ok (filtered 200)
   \<and> fst (generate_image (site (1, Some (filtered 200)) [(0, Some (plain 202)), (2, Some (filtered 200))])
            ''a cat'' [] ''3:2'' 42 ''jpeg'' fresh) = Inl (Exit Filtered)
   \<and> fst (generate_sd3 (site (1, Some (filtered 200)) [(0, Some (plain 202)), (2, Some (filtered 200))])
            ''a cat'' [] ''3:2'' 42 ''jpeg'' ''sd3.5-large'' fresh) = Inl (Exit Filtered)
   \<and> fst (sketch_to_image (site (1, Some (filtered 200)) [(0, Some (plain 202)), (2, Some (filtered 200))])
            ''in/cat.png'' ''a cat'' [] 0.7 42 ''jpeg'' fresh) = Inl (Exit Filtered)
   \<and> fst (upscale_image (site (1, Some (filtered 200)) [(0, Some (plain 202)), (2, Some (filtered 200))])
            ''in/cat.png'' ''a cat'' [] 42 0.3 ''jpeg'' fresh) = Some (Inl (Exit Filtered))
   \<and> files_written (trace (snd (upscale_image
            (site (1, Some (filtered 200)) [(0, Some (plain 202)), (2, Some (filtered 200))])
            ''in/cat.png'' ''a cat'' [] 42 0.3 ''jpeg'' fresh))) = []"
proof -
  let ?ev = "site (1, Some (filtered 200)) [(0, Some (plain 202)), (2, Some (filtered 200))]"
  have marked: "finish_reason (filtered 200) = CONTENT_FILTERED"
    by (simp add: finish_reason_def header_get_def filtered_def CONTENT_FILTERED_def)
  have success: "ok (filtered 200)"
    by (simp add: ok_def filtered_def)
  have post: "snd (post_reply ?ev) = Some (filtered 200)"
    by (simp add: site_def)
  have there: "path_exists ?ev ''in/cat.png''"
    by (simp add: site_def)
  have size: "image_size ?ev ''in/cat.png'' = Some (1024, 1024)"
    by (simp add: site_def)
  have body: "body_json (filtered 200) = Some [(''id'', ''job-1'')]"
    by (simp add: filtered_def)
  have polls: "get_replies ?ev = [(0, Some (plain 202))] @ (2, Some (filtered 200)) # []"
    by (simp add: site_def)
  have pending: "keeps_polling 10 500 0 [(0, Some (plain 202))]"
    by (simp add: plain_def)
  have final: "status_code (filtered 200) \<noteq> 202"
    by (simp add: filtered_def)
  have empty: "files_written (trace fresh) = []"
    by (simp add: fresh_def)
  from content_filtered_stops_image_modes [OF marked success,
         where ev = ?ev and input_image = "''in/cat.png''" and width = 1024 and height = 1024
           and ?r0.0 = "filtered 200" and d = "[(''id'', ''job-1'')]" and job = "''job-1''"
           and pre = "[(0, Some (plain 202))]" and lat = 2 and rest = "[]" and w = fresh]
    marked success post there size body polls pending final empty
  show ?thesis by simp
qed

lemma posted_params_attach:
  "posted_params (trace (snd (attach ev name v fw))) = posted_params (trace (snd fw))"
  by (simp add: attach_def emit_def posted_params_append split: option.splits pval.splits)

lemma posted_params_submit:
  "posted_params (trace (snd (submit ev host ps fs w)))
     = posted_params (trace w) @ [AList.delete ''mask'' (AList.delete ''image'' ps)]"
  by (simp add: submit_def Let_def emit_def pass_def posted_params_append
        posted_params_close_all posted_params_attach split: option.splits)

lemma posted_params_poll_loop:
  "posted_params (trace (snd (poll_loop url poll_interval timeout start rs w)))
     = posted_params (trace w)"
proof (induction rs arbitrary: w)
  case Nil
  show ?case by simp
next
  case (Cons rp rs)
  obtain lat rep where rp: "rp = (lat, rep)" by (cases rp)
  have step: "posted_params (trace (pass poll_interval (emit (Slept poll_interval)
                 (pass lat (emit (Got url) w))))) = posted_params (trace w)"
    by (simp add: pass_def emit_def posted_params_append)
  show ?case
    by (simp add: rp Let_def Cons.IH step split: option.splits)
       (simp add: pass_def emit_def posted_params_append)
qed

lemma posted_params_send_async:
  "posted_params (trace (snd (send_async_generation_request ev host ps fs poll_interval
                                timeout w)))
     = posted_params (trace w) @ [AList.delete ''mask'' (AList.delete ''image'' ps)]"
proof (cases "submit ev host ps fs w")
  case (Pair res w1)
  have w1: "posted_params (trace w1)
              = posted_params (trace w) @ [AList.delete ''mask'' (AList.delete ''image'' ps)]"
    using posted_params_submit [of ev host ps fs w] Pair by simp
  show ?thesis
    by (cases res)
       (simp_all add: send_async_generation_request_def Pair w1 posted_params_poll_loop
          split: option.splits)
qed

lemma submit_no_pixel_limit:
  "fst (submit ev host ps fs w) \<noteq> Inl (Exit (PixelLimit k))"
  by (simp add: submit_def Let_def split: option.splits)

lemma poll_loop_no_pixel_limit:
  "fst (poll_loop url poll_interval timeout start rs w) \<noteq> Some (Inl (Exit (PixelLimit k)))"
proof (induction rs arbitrary: w)
  case Nil
  show ?case by simp
next
  case (Cons rp rs)
  obtain lat rep where rp: "rp = (lat, rep)" by (cases rp)
  show ?case
    by (simp add: rp Let_def Cons.IH split: option.splits)
qed

lemma send_async_no_pixel_limit:
  "fst (send_async_generation_request ev host ps fs poll_interval timeout w)
     \<noteq> Some (Inl (Exit (PixelLimit k)))"
proof (cases "submit ev host ps fs w")
  case (Pair res w1)
  have "res \<noteq> Inl (Exit (PixelLimit k))"
    using submit_no_pixel_limit [of ev host ps fs w k] Pair by simp
  then show ?thesis
    by (cases res)
       (simp_all add: send_async_generation_request_def Pair poll_loop_no_pixel_limit
          split: option.splits)
qed

text \<open>
  Claim C5. For an existing input image of the given width and height:
  when width times height exceeds 1,048,576, \<open>upscale_image\<close> exits fatally with the
  world unchanged, so no network call has been issued; when it is at most 1,048,576,
  the image is not rejected for its size and the upscale request is posted.
\<close>

theorem upscale_pixel_limit:
  assumes there: "path_exists ev input_image"
    and size: "image_size ev input_image = Some (width, height)"
  shows "(width * height > 1048576 \<longrightarrow>
            upscale_image ev input_image prompt negative_prompt seed creativity output_format w
              = (Some (Inl (Exit (PixelLimit (width * height)))), w)
          \<and> network_calls (trace (snd (upscale_image ev input_image prompt negative_prompt seed
                 creativity output_format w))) = network_calls (trace w))
       \<and> (width * height \<le> 1048576 \<longrightarrow>
            fst (upscale_image ev input_image prompt negative_prompt seed creativity
                   output_format w) \<noteq> Some (Inl (Exit (PixelLimit (width * height))))
          \<and> posted_params (trace (snd (upscale_image ev input_image prompt negative_prompt seed
                 creativity output_format w)))
              = posted_params (trace w)
                @ [upscale_params prompt negative_prompt seed creativity output_format])"
proof (intro conjI impI)
  assume big: "width * height > 1048576"
  with there size
  show run: "upscale_image ev input_image prompt negative_prompt seed creativity output_format w
          = (Some (Inl (Exit (PixelLimit (width * height)))), w)"
    by (simp add: upscale_image_def)
  then show "network_calls (trace (snd (upscale_image ev input_image prompt negative_prompt seed
                 creativity output_format w))) = network_calls (trace w)"
    by simp
next
  assume small: "width * height \<le> 1048576"
  let ?ps = "upscale_params prompt negative_prompt seed creativity output_format"
  let ?run = "send_async_generation_request ev UPSCALER_ENDPOINT ?ps
                [(''image'', FileHandle input_image)] 10 500 (emit (Opened input_image) w)"
  obtain res w2 where run: "?run = (res, w2)" by (cases ?run)
  have keep: "AList.delete ''mask'' (AList.delete ''image'' ?ps) = ?ps"
    by (simp add: upscale_params_def)
  have w2: "posted_params (trace w2) = posted_params (trace w) @ [?ps]"
    using posted_params_send_async [of ev UPSCALER_ENDPOINT ?ps
            "[(''image'', FileHandle input_image)]" 10 500 "emit (Opened input_image) w"] run
    by (simp add: keep emit_def posted_params_append)
  have res: "res \<noteq> Some (Inl (Exit (PixelLimit (width * height))))"
    using send_async_no_pixel_limit [of ev UPSCALER_ENDPOINT ?ps
            "[(''image'', FileHandle input_image)]" 10 500 "emit (Opened input_image) w"
            "width * height"] run
    by simp
  have unfolded: "upscale_image ev input_image prompt negative_prompt seed creativity
                    output_format w
      = (case (res, w2) of
           (None, w2) \<Rightarrow> (None, w2)
         | (Some (Inl Raised), w2) \<Rightarrow>
             (Some (Inl (Exit RequestError)), emit (Closed input_image) w2)
         | (Some (Inl (Exit x)), w2) \<Rightarrow>
             (Some (Inl (Exit x)), emit (Closed input_image) w2)
         | (Some (Inr r), w2) \<Rightarrow>
             (let w3 = emit (Closed input_image) w2
              in if \<not> ok r then (Some (Inl (Exit (HttpFail (status_code r)))), w3)
                 else if finish_reason r = CONTENT_FILTERED
                 then (Some (Inl (Exit Filtered)), w3)
                 else (let upscaled = ''upscaled_'' @ stem_of ev input_image @ ''_''
                                        @ str_int seed @ ''.'' @ output_format
                       in (Some (Inr upscaled), emit (Wrote upscaled (content r)) w3))))"
    using there size small run by (simp add: upscale_image_def Let_def)
  from res
  show "fst (upscale_image ev input_image prompt negative_prompt seed creativity
               output_format w) \<noteq> Some (Inl (Exit (PixelLimit (width * height))))"
    unfolding unfolded
    by (auto simp: Let_def split: option.splits sum.splits abort.splits)
  show "posted_params (trace (snd (upscale_image ev input_image prompt negative_prompt seed
                 creativity output_format w)))
          = posted_params (trace w) @ [?ps]"
    unfolding unfolded
    by (auto simp: Let_def emit_def posted_params_append w2
          split: option.splits sum.splits abort.splits)
qed

text \<open>
  C5 at the two images of the claim: 1025 by 1025 (1,050,625 pixels) is rejected with
  nothing sent, 1024 by 1024 (1,048,576 pixels) is submitted.
\<close>

theorem upscale_pixel_limit_witness:
  "(1025::nat) * 1025 = 1050625 \<and> (1025::nat) * 1025 > 1048576
   \<and> upscale_image (site (0, Some (accepted ''job-1'')) [(0, Some (plain 200))]
                      \<lparr>image_size := (\<lambda>p. Some (1025, 1025))\<rparr>)
        ''in/cat.png'' ''sharper'' [] 42 0.3 ''jpeg'' fresh
       = (Some (Inl (Exit (PixelLimit 1050625))), fresh)
   \<and> network_calls (trace fresh) = 0
   \<and> (1024::nat) * 1024 = 1048576
   \<and> fst (upscale_image (site (0, Some (accepted ''job-1'')) [(0, Some (plain 200))])
        ''in/cat.png'' ''sharper'' [] 42 0.3 ''jpeg'' fresh)
       \<noteq> Some (Inl (Exit (PixelLimit 1048576)))
   \<and> posted_params (trace (snd (upscale_image
          (site (0, Some (accepted ''job-1'')) [(0, Some (plain 200))])
          ''in/cat.png'' ''sharper'' [] 42 0.3 ''jpeg'' fresh)))
       = [upscale_params ''sharper'' [] 42 0.3 ''jpeg'']"
proof -
  let ?ok = "site (0, Some (accepted ''job-1'')) [(0, Some (plain 200))]"
  let ?big = "?ok\<lparr>image_size := (\<lambda>p. Some (1025, 1025))\<rparr>"
  have there: "path_exists ?ok ''in/cat.png''" "path_exists ?big ''in/cat.png''"
    by (simp_all add: site_def)
  have size_ok: "image_size ?ok ''in/cat.png'' = Some (1024, 1024)"
    by (simp add: site_def)
  have size_big: "image_size ?big ''in/cat.png'' = Some (1025, 1025)"
    by simp
  have empty: "posted_params (trace fresh) = []" "network_calls (trace fresh) = 0"
    by (simp_all add: fresh_def)
  from upscale_pixel_limit [OF there(2) size_big, of "''sharper''" "[]" 42 "0.3" "''jpeg''" fresh]
    upscale_pixel_limit [OF there(1) size_ok, of "''sharper''" "[]" 42 "0.3" "''jpeg''" fresh]
    empty
  show ?thesis by simp
qed

subsection \<open>Job identifiers\<close>

text \<open>
  A submit response without an \<open>id\<close> stops both asynchronous paths before any poll;
  \<open>generate_video\<close> also stops on an empty one.
\<close>

lemma polls_issued_close_all:
  "polls_issued (trace (close_all fs w)) = polls_issued (trace w)"
  by (induction fs w rule: close_all.induct) (simp_all add: emit_def polls_issued_append)

lemma polls_issued_attach:
  "polls_issued (trace (snd (attach ev name v fw))) = polls_issued (trace (snd fw))"
  by (simp add: attach_def emit_def polls_issued_append split: option.splits pval.splits)

lemma polls_issued_submit:
  "polls_issued (trace (snd (submit ev host ps fs w))) = polls_issued (trace w)"
  by (simp add: submit_def Let_def emit_def pass_def polls_issued_append
        polls_issued_close_all polls_issued_attach split: option.splits)

lemma missing_job_id_shared:
  assumes "snd (post_reply ev) = Some r" and "ok r" and "body_json r = Some d"
    and "map_of d ''id'' = None"
  shows "fst (send_async_generation_request ev host ps fs poll_interval timeout w)
           = Some (Inl (Exit NoJobId))
         \<and> polls_issued (trace (snd (send_async_generation_request ev host ps fs poll_interval
                                       timeout w))) = polls_issued (trace w)"
proof (cases "submit ev host ps fs w")
  case (Pair res w1)
  have res: "res = Inr r"
    using fst_submit_replied [OF assms(1), of host ps fs w] Pair assms(2) by simp
  have w1: "polls_issued (trace w1) = polls_issued (trace w)"
    using polls_issued_submit [of ev host ps fs w] Pair by simp
  show ?thesis
    by (simp add: send_async_generation_request_def Pair res w1 assms(3) assms(4))
qed

lemma missing_or_empty_job_id_video:
  assumes "path_exists ev image_path" and "snd (post_reply ev) = Some r" and "ok r"
    and "body_json r = Some d" and "map_of d ''id'' = None \<or> map_of d ''id'' = Some []"
  shows "fst (generate_video ev image_path seed cfg_scale motion_bucket_id w)
           = Some (Inl (Exit NoJobId))
         \<and> polls_issued (trace (snd (generate_video ev image_path seed cfg_scale
                                       motion_bucket_id w))) = polls_issued (trace w)"
  using assms
  by (auto simp: generate_video_def Let_def emit_def pass_def polls_issued_append)

end
